theory Spec2Isabelle
  imports Complex_Main "HOL-Library.Word"
begin

section \<open>Single-precision floats\<close>

text \<open>
  Both kernels compute in single-precision \<^verbatim>\<open>float\<close>. A float is a real number of
  the binary32 format, an infinity or NaN. Every arithmetic operation computes the
  exact result and rounds it to the nearest binary32 number, a tie to the number with
  the even significand; a result beyond the largest float becomes an infinity.
  The model leaves out the sign of zero (every zero divisor of the kernels is a
  positive zero) and the fusing of a multiplication with an addition, which a device
  compiler may choose. The logarithm is the rounded exact logarithm.
\<close>

datatype f32 = Fin real | PInf | NInf | NaN

type_synonym vec2 = "f32 \<times> f32"
type_synonym ivec2 = "int \<times> int"
type_synonym rgba8 = "8 word \<times> 8 word \<times> 8 word \<times> 8 word"

text \<open>Rounding a real to the nearest integer, a tie to the even one.\<close>

definition round_even :: "real \<Rightarrow> int" where
  "round_even y =
     (if y - of_int \<lfloor>y\<rfloor> < 1 / 2 then \<lfloor>y\<rfloor>
      else if 1 / 2 < y - of_int \<lfloor>y\<rfloor> then \<lfloor>y\<rfloor> + 1
      else if even \<lfloor>y\<rfloor> then \<lfloor>y\<rfloor> else \<lfloor>y\<rfloor> + 1)"

text \<open>
  The exponent of the unit in the last place at \<open>x\<close>: 24 bits of significand, and
  \<open>2 powi (- 149)\<close> for the subnormal numbers.
\<close>

definition ulp_exp :: "real \<Rightarrow> int" where
  "ulp_exp x = max (\<lfloor>log 2 \<bar>x\<bar>\<rfloor> - 23) (- 149)"

definition r32 :: "real \<Rightarrow> real" where
  "r32 x = (if x = 0 then 0 else of_int (round_even (x / 2 powi ulp_exp x)) * 2 powi ulp_exp x)"

text \<open>The largest float, \<open>(2 ^ 24 - 1) * 2 ^ 104\<close>.\<close>

definition max_float :: real where
  "max_float = 340282346638528859811704183484516925440"

definition fl :: "real \<Rightarrow> f32" where
  "fl x =
     (if max_float < r32 x then PInf
      else if r32 x < - max_float then NInf
      else Fin (r32 x))"

text \<open>The real numbers that are binary32 numbers.\<close>

definition is_float :: "real \<Rightarrow> bool" where
  "is_float x \<longleftrightarrow> r32 x = x \<and> \<bar>x\<bar> \<le> max_float"

fun fneg :: "f32 \<Rightarrow> f32" where
  "fneg (Fin a) = Fin (- a)"
| "fneg PInf = NInf"
| "fneg NInf = PInf"
| "fneg NaN = NaN"

fun fadd :: "f32 \<Rightarrow> f32 \<Rightarrow> f32" where
  "fadd (Fin a) (Fin b) = fl (a + b)"
| "fadd NaN _ = NaN"
| "fadd _ NaN = NaN"
| "fadd PInf NInf = NaN"
| "fadd NInf PInf = NaN"
| "fadd PInf _ = PInf"
| "fadd _ PInf = PInf"
| "fadd NInf _ = NInf"
| "fadd _ NInf = NInf"

definition fsub :: "f32 \<Rightarrow> f32 \<Rightarrow> f32" where
  "fsub a b = fadd a (fneg b)"

fun fmul :: "f32 \<Rightarrow> f32 \<Rightarrow> f32" where
  "fmul (Fin a) (Fin b) = fl (a * b)"
| "fmul NaN _ = NaN"
| "fmul _ NaN = NaN"
| "fmul PInf (Fin b) = (if b = 0 then NaN else if 0 < b then PInf else NInf)"
| "fmul NInf (Fin b) = (if b = 0 then NaN else if 0 < b then NInf else PInf)"
| "fmul (Fin a) PInf = (if a = 0 then NaN else if 0 < a then PInf else NInf)"
| "fmul (Fin a) NInf = (if a = 0 then NaN else if 0 < a then NInf else PInf)"
| "fmul PInf PInf = PInf"
| "fmul NInf NInf = PInf"
| "fmul PInf NInf = NInf"
| "fmul NInf PInf = NInf"

text \<open>
  A division by zero does not trap: \<open>0 / 0\<close> is NaN, and a number other than 0
  divided by 0 is an infinity.
\<close>

fun fdiv :: "f32 \<Rightarrow> f32 \<Rightarrow> f32" where
  "fdiv (Fin a) (Fin b) =
     (if b = 0 then (if a = 0 then NaN else if 0 < a then PInf else NInf)
      else fl (a / b))"
| "fdiv NaN _ = NaN"
| "fdiv _ NaN = NaN"
| "fdiv (Fin a) PInf = Fin 0"
| "fdiv (Fin a) NInf = Fin 0"
| "fdiv PInf (Fin b) = (if 0 \<le> b then PInf else NInf)"
| "fdiv NInf (Fin b) = (if 0 \<le> b then NInf else PInf)"
| "fdiv PInf PInf = NaN"
| "fdiv PInf NInf = NaN"
| "fdiv NInf PInf = NaN"
| "fdiv NInf NInf = NaN"

text \<open>Comparisons: every comparison with NaN is false.\<close>

fun fle :: "f32 \<Rightarrow> f32 \<Rightarrow> bool" where
  "fle (Fin a) (Fin b) = (a \<le> b)"
| "fle NaN _ = False"
| "fle _ NaN = False"
| "fle NInf _ = True"
| "fle _ PInf = True"
| "fle PInf _ = False"
| "fle (Fin a) NInf = False"

fun flt :: "f32 \<Rightarrow> f32 \<Rightarrow> bool" where
  "flt (Fin a) (Fin b) = (a < b)"
| "flt NaN _ = False"
| "flt _ NaN = False"
| "flt PInf _ = False"
| "flt _ NInf = False"
| "flt NInf _ = True"
| "flt (Fin a) PInf = True"

fun flog :: "f32 \<Rightarrow> f32" where
  "flog (Fin a) = (if a < 0 then NaN else if a = 0 then NInf else fl (ln a))"
| "flog PInf = PInf"
| "flog NInf = NaN"
| "flog NaN = NaN"

text \<open>
  GLSL's \<^verbatim>\<open>min(x, y)\<close> "returns y if y < x, otherwise it returns x". OpenCL's
  \<^verbatim>\<open>fmin(x, y)\<close> does the same, but returns the other argument when one is NaN.
\<close>

definition gl_min :: "f32 \<Rightarrow> f32 \<Rightarrow> f32" where
  "gl_min x y = (if flt y x then y else x)"

definition cl_fmin :: "f32 \<Rightarrow> f32 \<Rightarrow> f32" where
  "cl_fmin x y = (if x = NaN then y else if y = NaN then x else if flt y x then y else x)"

text \<open>The conversion of an \<^verbatim>\<open>int\<close> or \<^verbatim>\<open>uint\<close> to \<^verbatim>\<open>float\<close> rounds too.\<close>

definition f32_of_int :: "int \<Rightarrow> f32" where
  "f32_of_int k = fl (of_int k)"

text \<open>
  What the model does not decide is a fault: the conversion to \<^verbatim>\<open>int\<close> of NaN, of an
  infinity or of a number outside the range of \<^verbatim>\<open>int\<close> (undefined in both
  languages), and a read of the palette outside its entries.
\<close>

datatype fault = ConversionUndefined | PaletteOutOfRange

definition int_in_range :: "int \<Rightarrow> fault + int" where
  "int_in_range k = (if - (2 ^ 31) \<le> k \<and> k < 2 ^ 31 then Inr k else Inl ConversionUndefined)"

text \<open>\<^verbatim>\<open>int(round(x))\<close> in GLSL. HOL's \<open>round\<close> takes a half upwards; GLSL leaves the
  direction of a half to the implementation.\<close>

fun int_round :: "f32 \<Rightarrow> fault + int" where
  "int_round (Fin a) = int_in_range (round a)"
| "int_round _ = Inl ConversionUndefined"

text \<open>\<^verbatim>\<open>int index = floor(x)\<close> in OpenCL C.\<close>

fun int_floor :: "f32 \<Rightarrow> fault + int" where
  "int_floor (Fin a) = int_in_range \<lfloor>a\<rfloor>"
| "int_floor _ = Inl ConversionUndefined"

text \<open>\<^verbatim>\<open>z * z\<close> on a two-component vector: the squares of the components.\<close>

definition sq :: "vec2 \<Rightarrow> vec2" where
  "sq z = (fmul (fst z) (fst z), fmul (snd z) (snd z))"

text \<open>Opaque black: \<^verbatim>\<open>vec4(0, 0, 0, 1)\<close> stored to an rgba8 image, \<^verbatim>\<open>(uchar4)(0, 0, 0, 255)\<close>.\<close>

definition black :: rgba8 where
  "black = (0, 0, 0, 255)"

text \<open>
  The palette is the sequence of its colours; \<^verbatim>\<open>imageLoad(palette, k)\<close> and
  \<^verbatim>\<open>palette[k]\<close> read entry \<open>k\<close>.
\<close>

definition palette_at :: "rgba8 list \<Rightarrow> int \<Rightarrow> fault + rgba8" where
  "palette_at palette k =
     (if 0 \<le> k \<and> k < int (length palette) then Inr (palette ! nat k)
      else Inl PaletteOutOfRange)"

section \<open>The iteration shared by both kernels\<close>

text \<open>
  The loop body of both kernels:
  \<^verbatim>\<open>z = vec2(z2.x - z2.y, 2 * z.x * z.y) + c; z2 = z * z;\<close>
  \<open>next_z\<close> is the new \<open>z\<close>; the new \<open>z2\<close> is \<open>sq\<close> of it.
\<close>

definition next_z :: "vec2 \<Rightarrow> vec2 \<Rightarrow> vec2 \<Rightarrow> vec2" where
  "next_z c z z2 =
     (fadd (fsub (fst z2) (snd z2)) (fst c),
      fadd (fmul (fmul (Fin 2) (fst z)) (snd z)) (snd c))"

text \<open>
  The quotient of logarithms of both kernels:
  \<^verbatim>\<open>log(i * scaleForce + 1.0f) / log(scaleForce)\<close>
\<close>

definition log_ratio :: "f32 \<Rightarrow> f32 \<Rightarrow> f32" where
  "log_ratio i scaleForce = fdiv (flog (fadd (fmul i scaleForce) (Fin 1))) (flog scaleForce)"

section \<open>The OpenGL compute shader (ComputeShader/mandelbrot.cpp)\<close>

text \<open>The shader's uniforms, as the host sets them.\<close>

record uniforms =
  u_size :: vec2
  u_paletteSize :: int
  u_cmin :: vec2
  u_cdelta :: vec2
  u_maxDepth :: int
  u_scaleForce :: f32

text \<open>\<^verbatim>\<open>vec2 c = cdelta * pixel / size + cmin;\<close>\<close>

definition gl_interpolate :: "uniforms \<Rightarrow> ivec2 \<Rightarrow> vec2" where
  "gl_interpolate u pixel =
     (fadd (fdiv (fmul (fst (u_cdelta u)) (f32_of_int (fst pixel))) (fst (u_size u)))
        (fst (u_cmin u)),
      fadd (fdiv (fmul (snd (u_cdelta u)) (f32_of_int (snd pixel))) (snd (u_size u)))
        (snd (u_cmin u)))"

text \<open>
  \<^verbatim>\<open>for(; depth <= maxDepth && z2.x + z2.y <= 4.0f; ++depth) { ... }\<close>
  The result is the state when the loop is left: \<open>(depth, z, z2)\<close>.
\<close>

function gl_loop :: "vec2 \<Rightarrow> int \<Rightarrow> int \<Rightarrow> vec2 \<Rightarrow> vec2 \<Rightarrow> int \<times> vec2 \<times> vec2" where
  "gl_loop c maxDepth depth z z2 =
     (if depth \<le> maxDepth \<and> fle (fadd (fst z2) (snd z2)) (Fin 4)
      then gl_loop c maxDepth (depth + 1) (next_z c z z2) (sq (next_z c z z2))
      else (depth, z, z2))"
  by pat_completeness auto
termination
  by (relation "measure (\<lambda>(c, maxDepth, depth, z, z2). nat (maxDepth + 1 - depth))") auto

declare gl_loop.simps [simp del]

text \<open>\<^verbatim>\<open>float i = float(depth) / maxDepth;\<close>\<close>

definition gl_normalise :: "int \<Rightarrow> int \<Rightarrow> f32" where
  "gl_normalise depth maxDepth = fdiv (f32_of_int depth) (f32_of_int maxDepth)"

text \<open>\<^verbatim>\<open>float ie = min(1.0f, log(i * scaleForce + 1.0f) / log(scaleForce));\<close>\<close>

definition gl_smooth :: "f32 \<Rightarrow> f32 \<Rightarrow> f32" where
  "gl_smooth i scaleForce = gl_min (Fin 1) (log_ratio i scaleForce)"

text \<open>\<^verbatim>\<open>int color = int(round((1.0f - ie) * paletteSize));\<close>\<close>

definition gl_index :: "f32 \<Rightarrow> int \<Rightarrow> fault + int" where
  "gl_index ie paletteSize = int_round (fmul (fsub (Fin 1) ie) (f32_of_int paletteSize))"

text \<open>The palette index of the \<^verbatim>\<open>else\<close> branch: \<open>i\<close>, \<open>ie\<close>, \<open>color\<close>.\<close>

definition gl_escape_index :: "uniforms \<Rightarrow> int \<Rightarrow> fault + int" where
  "gl_escape_index u depth =
     gl_index (gl_smooth (gl_normalise depth (u_maxDepth u)) (u_scaleForce u)) (u_paletteSize u)"

text \<open>
  The two branches after the loop, as a function of the final \<open>depth\<close>:
  \<^verbatim>\<open>if (depth > maxDepth) imageStore(img, pixel, vec4(0, 0, 0, 1));\<close>
  \<^verbatim>\<open>else { ...; imageStore(img, pixel, imageLoad(palette, color)); }\<close>
\<close>

definition gl_colour :: "uniforms \<Rightarrow> rgba8 list \<Rightarrow> int \<Rightarrow> fault + rgba8" where
  "gl_colour u palette depth =
     (if depth > u_maxDepth u then Inr black
      else
        case gl_escape_index u depth of
          Inl e \<Rightarrow> Inl e
        | Inr color \<Rightarrow> palette_at palette color)"

text \<open>The shader from the interpolated \<open>c\<close> on, and the whole shader for one pixel.\<close>

definition gl_shade :: "uniforms \<Rightarrow> rgba8 list \<Rightarrow> vec2 \<Rightarrow> fault + rgba8" where
  "gl_shade u palette c = gl_colour u palette (fst (gl_loop c (u_maxDepth u) 0 c (sq c)))"

definition shader_main :: "uniforms \<Rightarrow> rgba8 list \<Rightarrow> ivec2 \<Rightarrow> fault + rgba8" where
  "shader_main u palette pixel = gl_shade u palette (gl_interpolate u pixel)"

section \<open>The OpenCL kernel (OpenCL/mandelbrot.cpp)\<close>

text \<open>
  \<^verbatim>\<open>float2 c = min + delta * (float2)(x / (float)(width - 1), y / (float)(height - 1));\<close>
  \<open>gid\<close> is \<^verbatim>\<open>(get_global_id(0), get_global_id(1))\<close> and \<open>gsize\<close> is
  \<^verbatim>\<open>(get_global_size(0), get_global_size(1))\<close>; \<open>cl_size\<close> names the two
  divisors \<^verbatim>\<open>(float)(width - 1)\<close> and \<^verbatim>\<open>(float)(height - 1)\<close>.
\<close>

definition cl_size :: "ivec2 \<Rightarrow> vec2" where
  "cl_size gsize = (f32_of_int (fst gsize - 1), f32_of_int (snd gsize - 1))"

definition cl_interpolate :: "vec2 \<Rightarrow> vec2 \<Rightarrow> ivec2 \<Rightarrow> ivec2 \<Rightarrow> vec2" where
  "cl_interpolate cmin delta gid gsize =
     (fadd (fst cmin) (fmul (fst delta) (fdiv (f32_of_int (fst gid)) (fst (cl_size gsize)))),
      fadd (snd cmin) (fmul (snd delta) (fdiv (f32_of_int (snd gid)) (snd (cl_size gsize)))))"

text \<open>
  \<^verbatim>\<open>for(; depth < maxDepth && z2.x + z2.y < 4.0f; ++depth) { ... }\<close>
  \<open>depth\<close> is an \<^verbatim>\<open>int\<close> that starts at 0 and only grows, \<open>maxDepth\<close> a
  \<^verbatim>\<open>uint\<close>: the comparison is the one of the integers.
\<close>

function cl_loop :: "vec2 \<Rightarrow> int \<Rightarrow> int \<Rightarrow> vec2 \<Rightarrow> vec2 \<Rightarrow> int \<times> vec2 \<times> vec2" where
  "cl_loop c maxDepth depth z z2 =
     (if depth < maxDepth \<and> flt (fadd (fst z2) (snd z2)) (Fin 4)
      then cl_loop c maxDepth (depth + 1) (next_z c z z2) (sq (next_z c z z2))
      else (depth, z, z2))"
  by pat_completeness auto
termination
  by (relation "measure (\<lambda>(c, maxDepth, depth, z, z2). nat (maxDepth - depth))") auto

declare cl_loop.simps [simp del]

text \<open>
  \<^verbatim>\<open>float i = (float)(depth) / (float)(maxDepth - 1);\<close>
  \<open>maxDepth - 1\<close> is a subtraction of \<^verbatim>\<open>uint\<close>: it wraps at 32 bits.
\<close>

definition cl_normalise :: "int \<Rightarrow> int \<Rightarrow> f32" where
  "cl_normalise depth maxDepth =
     fdiv (f32_of_int depth) (f32_of_int ((maxDepth - 1) mod 2 ^ 32))"

text \<open>\<^verbatim>\<open>float ie = fmin(1.0f, log(i * scaleForce + 1.0f) / log(scaleForce));\<close>\<close>

definition cl_smooth :: "f32 \<Rightarrow> f32 \<Rightarrow> f32" where
  "cl_smooth i scaleForce = cl_fmin (Fin 1) (log_ratio i scaleForce)"

text \<open>\<^verbatim>\<open>int index = floor((1.0f - ie) * (float)(paletteSize - 1));\<close>\<close>

definition cl_index :: "f32 \<Rightarrow> int \<Rightarrow> fault + int" where
  "cl_index ie paletteSize = int_floor (fmul (fsub (Fin 1) ie) (f32_of_int (paletteSize - 1)))"

definition cl_escape_index :: "int \<Rightarrow> int \<Rightarrow> f32 \<Rightarrow> int \<Rightarrow> fault + int" where
  "cl_escape_index paletteSize maxDepth scaleForce depth =
     cl_index (cl_smooth (cl_normalise depth maxDepth) scaleForce) paletteSize"

text \<open>
  \<^verbatim>\<open>if (depth == maxDepth) { img[y * width + x] = (uchar4)(0, 0, 0, 255); }\<close>
  \<^verbatim>\<open>else { ...; img[y * width + x] = palette[index]; }\<close>
\<close>

definition cl_colour :: "rgba8 list \<Rightarrow> int \<Rightarrow> int \<Rightarrow> f32 \<Rightarrow> int \<Rightarrow> fault + rgba8" where
  "cl_colour palette paletteSize maxDepth scaleForce depth =
     (if depth = maxDepth then Inr black
      else
        case cl_escape_index paletteSize maxDepth scaleForce depth of
          Inl e \<Rightarrow> Inl e
        | Inr index \<Rightarrow> palette_at palette index)"

definition cl_shade :: "rgba8 list \<Rightarrow> int \<Rightarrow> int \<Rightarrow> f32 \<Rightarrow> vec2 \<Rightarrow> fault + rgba8" where
  "cl_shade palette paletteSize maxDepth scaleForce c =
     cl_colour palette paletteSize maxDepth scaleForce (fst (cl_loop c maxDepth 0 c (sq c)))"

definition mandelbrot ::
  "rgba8 list \<Rightarrow> int \<Rightarrow> vec2 \<Rightarrow> vec2 \<Rightarrow> int \<Rightarrow> f32 \<Rightarrow> ivec2 \<Rightarrow> ivec2 \<Rightarrow> fault + rgba8" where
  "mandelbrot palette paletteSize cmin delta maxDepth scaleForce gid gsize =
     cl_shade palette paletteSize maxDepth scaleForce (cl_interpolate cmin delta gid gsize)"

section \<open>The host programs\<close>

text \<open>
  The block of parameters at the head of both \<^verbatim>\<open>main\<close> functions
  (\<^verbatim>\<open>GLint\<close> in the OpenGL program, \<^verbatim>\<open>cl_uint\<close> in the OpenCL program, a float for
  \<^verbatim>\<open>scaleForce\<close>), and the values the two programs give it.
\<close>

record parameters =
  p_localGroupSize :: int
  p_maxDepth :: int
  p_width :: int
  p_height :: int
  p_scaleForce :: f32

definition gl_parameters :: parameters where
  "gl_parameters =
     \<lparr>p_localGroupSize = 32, p_maxDepth = 1024, p_width = 1024 * 8, p_height = 1024 * 8,
      p_scaleForce = Fin 20\<rparr>"

definition cl_parameters :: parameters where
  "cl_parameters =
     \<lparr>p_localGroupSize = 32, p_maxDepth = 1024, p_width = 1024 * 1, p_height = 1024 * 1,
      p_scaleForce = Fin 20\<rparr>"

text \<open>
  The window of the complex plane, the same lines in both programs:
  \<^verbatim>\<open>min_real = -2.0; max_real = 1.0f;\<close>
  \<^verbatim>\<open>min_imag = ((max_real - min_real) * height / width) / -2.0f; max_imag = -1.0f * min_imag;\<close>
  \<^verbatim>\<open>min = {min_real, min_imag}; delta = {max_real - min_real, max_imag - min_imag};\<close>
  The result is \<open>(min, delta)\<close>.
\<close>

definition window :: "int \<Rightarrow> int \<Rightarrow> vec2 \<times> vec2" where
  "window width height =
     (let min_real = Fin (- 2);
          max_real = Fin 1;
          min_imag =
            fdiv (fdiv (fmul (fsub max_real min_real) (f32_of_int height)) (f32_of_int width))
              (Fin (- 2));
          max_imag = fmul (Fin (- 1)) min_imag
      in ((min_real, min_imag), (fsub max_real min_real, fsub max_imag min_imag)))"

text \<open>
  The uniforms the OpenGL host sets:
  \<^verbatim>\<open>GLfloat size[2] = {(GLfloat)width - 1, (GLfloat)height - 1};\<close>
  \<^verbatim>\<open>uniform(shaderProgram, 1, h_palette - 1, "paletteSize", 1i);\<close>
  \<^verbatim>\<open>uniform(shaderProgram, 1, maxDepth - 1, "maxDepth", 1i);\<close>
  \<open>h_palette\<close> is an \<^verbatim>\<open>unsigned int\<close>: \<open>h_palette - 1\<close> wraps, and the uniform
  reads the 32 bits as a signed \<^verbatim>\<open>int\<close>.
\<close>

definition gl_uniforms :: "parameters \<Rightarrow> vec2 \<Rightarrow> vec2 \<Rightarrow> 32 word \<Rightarrow> uniforms" where
  "gl_uniforms p cmin delta h_palette =
     \<lparr>u_size = (fsub (f32_of_int (p_width p)) (Fin 1), fsub (f32_of_int (p_height p)) (Fin 1)),
      u_paletteSize = sint (h_palette - 1),
      u_cmin = cmin,
      u_cdelta = delta,
      u_maxDepth = p_maxDepth p - 1,
      u_scaleForce = p_scaleForce p\<rparr>"

text \<open>
  One pixel of the OpenGL program's image: the shader under the host's uniforms.
\<close>

definition gl_pixel ::
  "parameters \<Rightarrow> vec2 \<Rightarrow> vec2 \<Rightarrow> 32 word \<Rightarrow> rgba8 list \<Rightarrow> ivec2 \<Rightarrow> fault + rgba8" where
  "gl_pixel p cmin delta h_palette palette pixel =
     shader_main (gl_uniforms p cmin delta h_palette) palette pixel"

text \<open>
  One pixel of the OpenCL program's image: the kernel under the host's arguments
  (\<^verbatim>\<open>setArg(2, h_palette)\<close> to the kernel's \<^verbatim>\<open>int paletteSize\<close>, \<^verbatim>\<open>setArg(5, maxDepth)\<close>,
  \<^verbatim>\<open>setArg(6, scaleForce)\<close>) and the global range \<^verbatim>\<open>cl::NDRange global(width, height)\<close>.
\<close>

definition cl_pixel ::
  "parameters \<Rightarrow> vec2 \<Rightarrow> vec2 \<Rightarrow> 32 word \<Rightarrow> rgba8 list \<Rightarrow> ivec2 \<Rightarrow> fault + rgba8" where
  "cl_pixel p cmin delta h_palette palette gid =
     mandelbrot palette (sint h_palette) cmin delta (p_maxDepth p) (p_scaleForce p) gid
       (p_width p, p_height p)"

text \<open>
  What a run of \<^verbatim>\<open>main\<close> comes to before the image is read back: it left with
  \<^verbatim>\<open>exit(EXIT_FAILURE)\<close>, it was aborted, or it dispatched the kernel (the OpenGL
  program called \<^verbatim>\<open>glDispatchCompute\<close>; in the OpenCL program
  \<^verbatim>\<open>enqueueNDRangeKernel\<close> returned \<^verbatim>\<open>CL_SUCCESS\<close>).
\<close>

datatype 'launch outcome = ExitFailure | Aborted | Dispatched 'launch

text \<open>C's integer division truncates towards zero.\<close>

definition c_div :: "int \<Rightarrow> int \<Rightarrow> int" where
  "c_div a b = (if (a < 0) = (b < 0) then \<bar>a\<bar> div \<bar>b\<bar> else - (\<bar>a\<bar> div \<bar>b\<bar>))"

text \<open>A product of \<^verbatim>\<open>GLint\<close> keeps its low 32 bits, read as a signed number.\<close>

definition wrap32 :: "int \<Rightarrow> int" where
  "wrap32 k = (k + 2 ^ 31) mod 2 ^ 32 - 2 ^ 31"

text \<open>
  The OpenGL program's \<^verbatim>\<open>main\<close> up to \<^verbatim>\<open>glDispatchCompute\<close>. Its inputs are the
  parameter block, whether \<^verbatim>\<open>glfwInit\<close> and \<^verbatim>\<open>gladLoadGLLoader\<close> succeed, and
  the height \<open>h_palette\<close> that \<^verbatim>\<open>lodepng::decode\<close> leaves (0 when the file cannot be
  decoded: the return value of \<^verbatim>\<open>decode\<close> is not read).
  \<^item> \<^verbatim>\<open>std::vector<GLubyte> img(width * height * 4)\<close>: the product is one of
    \<^verbatim>\<open>GLint\<close>, which the compilers wrap at 32 bits; the constructor throws for a
    negative size, and nothing catches it;
  \<^item> \<^verbatim>\<open>initGLFWOffScreen\<close> and the glad check leave with \<^verbatim>\<open>exit(EXIT_FAILURE)\<close>;
  \<^item> no OpenGL call is checked;
  \<^item> \<^verbatim>\<open>glDispatchCompute(width / localGroupSize, height / localGroupSize, 1)\<close>
    divides integers.
  The launch is the uniforms and the two group counts.
\<close>

definition computeShader_main ::
  "parameters \<Rightarrow> bool \<Rightarrow> bool \<Rightarrow> 32 word \<Rightarrow> (uniforms \<times> int \<times> int) outcome" where
  "computeShader_main p glfwInit_ok gladLoad_ok h_palette =
     (if wrap32 (p_width p * p_height p * 4) < 0 then Aborted
      else if \<not> glfwInit_ok then ExitFailure
      else if \<not> gladLoad_ok then ExitFailure
      else if p_localGroupSize p = 0 then Aborted
      else
        Dispatched
          (gl_uniforms p (fst (window (p_width p) (p_height p)))
             (snd (window (p_width p) (p_height p))) h_palette,
           c_div (p_width p) (p_localGroupSize p),
           c_div (p_height p) (p_localGroupSize p)))"

text \<open>
  The OpenCL program's \<^verbatim>\<open>main\<close> up to \<^verbatim>\<open>enqueueNDRangeKernel\<close>. Every status the
  program checks with \<^verbatim>\<open>checkCLError\<close> or \<^verbatim>\<open>checkCLProgramBuildError\<close> is an input:
  whether the call returned \<^verbatim>\<open>CL_SUCCESS\<close>. The launch is the kernel's scalar
  arguments \<open>(paletteSize, maxDepth, scaleForce)\<close>, the global range and the local
  range.
\<close>

record cl_status =
  platform_ok :: bool
  devices_ok :: bool
  write_palette_ok :: bool
  build_ok :: bool
  setArg_ok :: bool
  enqueue_ok :: bool

definition openCL_main ::
  "parameters \<Rightarrow> cl_status \<Rightarrow> 32 word \<Rightarrow> ((int \<times> int \<times> f32) \<times> ivec2 \<times> ivec2) outcome" where
  "openCL_main p st h_palette =
     (if \<not> platform_ok st then ExitFailure
      else if \<not> devices_ok st then ExitFailure
      else if \<not> write_palette_ok st then ExitFailure
      else if \<not> build_ok st then ExitFailure
      else if \<not> setArg_ok st then ExitFailure
      else if \<not> enqueue_ok st then ExitFailure
      else
        Dispatched
          ((sint h_palette, p_maxDepth p, p_scaleForce p),
           (p_width p, p_height p),
           (p_localGroupSize p, p_localGroupSize p)))"

section \<open>The specification's words\<close>

text \<open>
  The specification's words: iterate \<open>z \<leftarrow> z\<^sup>2 + c\<close> starting at \<open>z = c\<close>, with the
  squared magnitude \<open>|z|\<^sup>2 = z.re\<^sup>2 + z.im\<^sup>2\<close>, over the real numbers.
  \<open>orbit c n\<close> is \<open>z\<close> after \<open>n\<close> steps.
\<close>

fun orbit :: "real \<times> real \<Rightarrow> nat \<Rightarrow> real \<times> real" where
  "orbit c 0 = c"
| "orbit c (Suc n) =
     (fst (orbit c n) * fst (orbit c n) - snd (orbit c n) * snd (orbit c n) + fst c,
      2 * fst (orbit c n) * snd (orbit c n) + snd c)"

definition norm2 :: "real \<times> real \<Rightarrow> real" where
  "norm2 z = fst z * fst z + snd z * snd z"

text \<open>
  The configurations the specification calls invalid: a non-positive dimension, a zero
  maximal depth, \<open>scaleForce \<le> 1\<close>, an empty palette.
\<close>

definition invalid_configuration :: "parameters \<Rightarrow> 32 word \<Rightarrow> bool" where
  "invalid_configuration p h_palette \<longleftrightarrow>
     p_width p \<le> 0 \<or> p_height p \<le> 0 \<or> p_maxDepth p = 0 \<or> fle (p_scaleForce p) (Fin 1)
       \<or> h_palette = 0"

section \<open>Facts about rounding\<close>

lemma round_even_of_int [simp]: "round_even (of_int k) = k"
  by (simp add: round_even_def)

lemma round_even_le: "y \<le> of_int k \<Longrightarrow> round_even y \<le> k"
  unfolding round_even_def by (auto simp: floor_le_iff le_floor_iff)

lemma round_even_ge: "of_int k \<le> y \<Longrightarrow> k \<le> round_even y"
  unfolding round_even_def by (auto simp: le_floor_iff) linarith+

lemma powr_powi: "0 < (x::real) \<Longrightarrow> x powr (of_int i) = x powi i"
  using powr_real_of_int [of x i] by (auto simp: power_int_def power_inverse)

lemma floor_log2_eq:
  assumes "2 powi e \<le> x" "x < 2 powi (e + 1)"
  shows "\<lfloor>log 2 x\<rfloor> = e"
proof -
  have "0 < (2::real) powi e" by simp
  with assms have "0 < x" by linarith
  moreover have "2 powr (of_int e) \<le> x" "x < 2 powr (of_int (e + 1))"
    using assms by (simp_all only: powr_powi zero_less_numeral)
  ultimately show ?thesis
    using floor_log_eq_powr_iff [of x 2 e] by simp
qed

lemma floor_log2_bounds:
  assumes "0 < x"
  shows "2 powi \<lfloor>log 2 x\<rfloor> \<le> x" "x < 2 powi (\<lfloor>log 2 x\<rfloor> + 1)"
proof -
  from floor_log_eq_powr_iff [of x 2 "\<lfloor>log 2 x\<rfloor>"] assms
  have "2 powr (of_int \<lfloor>log 2 x\<rfloor>) \<le> x \<and> x < 2 powr (of_int (\<lfloor>log 2 x\<rfloor> + 1))"
    by simp
  then show "2 powi \<lfloor>log 2 x\<rfloor> \<le> x" "x < 2 powi (\<lfloor>log 2 x\<rfloor> + 1)"
    by (simp_all only: powr_powi zero_less_numeral)
qed

lemma floor_log2_mono: "0 < x \<Longrightarrow> x \<le> y \<Longrightarrow> \<lfloor>log 2 x\<rfloor> \<le> \<lfloor>log 2 y\<rfloor>"
  by (intro floor_mono) simp

lemma ulp_exp_mono: "0 < x \<Longrightarrow> x \<le> y \<Longrightarrow> ulp_exp x \<le> ulp_exp y"
  using floor_log2_mono [of x y] by (simp add: ulp_exp_def)

lemma r32_zero [simp]: "r32 0 = 0"
  by (simp add: r32_def)

lemma r32_on_grid:
  assumes "x = of_int m * 2 powi ulp_exp x"
  shows "r32 x = x"
proof (cases "x = 0")
  case True then show ?thesis by simp
next
  case False
  have "x / 2 powi ulp_exp x = of_int m"
    using assms by (metis nonzero_eq_divide_eq power_int_eq_0_iff zero_neq_numeral)
  with False assms show ?thesis by (simp add: r32_def)
qed

lemma r32_nonneg: "0 \<le> x \<Longrightarrow> 0 \<le> r32 x"
proof -
  assume "0 \<le> x"
  then have "of_int 0 \<le> x / 2 powi ulp_exp x" by simp
  from round_even_ge [OF this] show ?thesis by (simp add: r32_def)
qed

lemma r32_le:
  assumes "0 \<le> x" "x \<le> F" "r32 F = F"
  shows "r32 x \<le> F"
proof (cases "x = 0")
  case True with assms show ?thesis by simp
next
  case False
  with assms have pos: "0 < x" "0 < F" by simp_all
  define n where "n = round_even (F / 2 powi ulp_exp F)"
  define d where "d = ulp_exp F - ulp_exp x"
  have d: "0 \<le> d" using ulp_exp_mono [OF pos(1) assms(2)] by (simp add: d_def)
  have F: "F = of_int n * 2 powi ulp_exp F"
    using assms(3) pos by (simp add: r32_def n_def)
  have "2 powi ulp_exp F = (2::real) powi d * 2 powi ulp_exp x"
    by (simp add: d_def flip: power_int_add)
  also have "(2::real) powi d = of_int (2 ^ nat d)"
    using d by (simp add: power_int_def)
  finally have Fx: "F = of_int (n * 2 ^ nat d) * 2 powi ulp_exp x"
    using F by simp
  then have Fq: "F / 2 powi ulp_exp x = of_int (n * 2 ^ nat d)"
    by simp
  have "x / 2 powi ulp_exp x \<le> F / 2 powi ulp_exp x"
    using assms(2) by (intro divide_right_mono) simp_all
  with Fq have "x / 2 powi ulp_exp x \<le> of_int (n * 2 ^ nat d)" by simp
  from round_even_le [OF this]
  have "(of_int (round_even (x / 2 powi ulp_exp x)) :: real) \<le> of_int (n * 2 ^ nat d)"
    by (simp only: of_int_le_iff)
  then have "of_int (round_even (x / 2 powi ulp_exp x)) * 2 powi ulp_exp x
      \<le> (of_int (n * 2 ^ nat d) :: real) * 2 powi ulp_exp x"
    by (intro mult_right_mono) simp_all
  also have "\<dots> = F" using Fx by (simp only:)
  finally show ?thesis using False by (simp add: r32_def)
qed


lemma ulp_exp_normal:
  assumes "2 powi e \<le> \<bar>x\<bar>" "\<bar>x\<bar> < 2 powi (e + 1)" "- 126 \<le> e"
  shows "ulp_exp x = e - 23"
  using floor_log2_eq [OF assms(1,2)] assms(3) by (simp add: ulp_exp_def)

lemma r32_normal:
  assumes "2 powi e \<le> \<bar>x\<bar>" "\<bar>x\<bar> < 2 powi (e + 1)" "- 126 \<le> e"
  shows "r32 x = of_int (round_even (x / 2 powi (e - 23))) * 2 powi (e - 23)"
proof -
  have "0 < (2::real) powi e" by simp
  with assms(1) have "0 < \<bar>x\<bar>" by linarith
  then have "x \<noteq> 0" by simp
  then show ?thesis by (simp add: r32_def ulp_exp_normal [OF assms])
qed

lemma r32_eval_up:
  assumes "2 ^ n \<le> \<bar>x\<bar>" "\<bar>x\<bar> < 2 * 2 ^ n"
  shows "r32 x = of_int (round_even (x * 2 ^ 23 / 2 ^ n)) * 2 ^ n / 2 ^ 23"
proof -
  have "r32 x = of_int (round_even (x / 2 powi (int n - 23))) * 2 powi (int n - 23)"
    using assms by (intro r32_normal) (simp_all add: power_int_add)
  moreover have "(2::real) powi (int n - 23) = 2 ^ n / 2 ^ 23"
    by (simp add: power_int_diff)
  ultimately show ?thesis by simp
qed

lemma r32_eval_down:
  assumes "1 \<le> \<bar>x\<bar> * 2 ^ n" "\<bar>x\<bar> * 2 ^ n < 2" "n \<le> 126"
  shows "r32 x = of_int (round_even (x * 2 ^ 23 * 2 ^ n)) / (2 ^ 23 * 2 ^ n)"
proof -
  have p: "(2::real) powi (- int n) = 1 / 2 ^ n" "(2::real) powi (- int n + 1) = 2 / 2 ^ n"
  proof -
    show "(2::real) powi (- int n) = 1 / 2 ^ n"
      by (simp add: power_int_minus field_simps)
    have "(2::real) powi (- int n + 1) = 2 powi 1 / 2 powi int n"
      by (simp add: power_int_diff)
    then show "(2::real) powi (- int n + 1) = 2 / 2 ^ n" by simp
  qed
  have a: "2 powi (- int n) \<le> \<bar>x\<bar>"
    using assms(1) unfolding p by (simp add: field_simps)
  have b: "\<bar>x\<bar> < 2 powi (- int n + 1)"
    using assms(2) unfolding p by (simp add: field_simps)
  have "r32 x = of_int (round_even (x / 2 powi (- int n - 23))) * 2 powi (- int n - 23)"
    using assms(3) by (intro r32_normal [OF a b]) simp
  moreover have "(2::real) powi (- int n - 23) = 1 / (2 ^ 23 * 2 ^ n)"
    by (simp add: power_int_diff power_int_minus field_simps)
  ultimately show ?thesis by (simp add: mult.assoc)
qed

lemma r32_int:
  assumes "\<bar>k\<bar> \<le> 2 ^ 24"
  shows "r32 (of_int k) = of_int k"
proof (cases "k = 0")
  case True then show ?thesis by simp
next
  case False
  define e where "e = \<lfloor>log 2 \<bar>real_of_int k\<bar>\<rfloor>"
  have pos: "0 < \<bar>real_of_int k\<bar>" using False by simp
  have one: "1 \<le> \<bar>real_of_int k\<bar>" using False by (simp flip: of_int_abs)
  have "\<lfloor>log 2 1\<rfloor> \<le> e" unfolding e_def by (intro floor_log2_mono one) simp
  then have e0: "0 \<le> e" by simp
  have "\<bar>real_of_int k\<bar> \<le> 2 ^ 24" using assms by (simp flip: of_int_abs)
  then have "e \<le> \<lfloor>log 2 (2 ^ 24)\<rfloor>" unfolding e_def by (intro floor_log2_mono pos)
  moreover have "\<lfloor>log 2 ((2::real) ^ 24)\<rfloor> = 24"
    by (rule floor_log2_eq) simp_all
  ultimately have e24: "e \<le> 24" by simp
  have u: "ulp_exp (of_int k) = e - 23"
    using e0 by (simp add: ulp_exp_def e_def)
  show ?thesis
  proof (cases "e = 24")
    case True
    have "2 powi 24 \<le> \<bar>real_of_int k\<bar>"
      using floor_log2_bounds(1) [OF pos] True by (simp add: e_def)
    then have "2 ^ 24 \<le> \<bar>k\<bar>" by (simp flip: of_int_abs)
    with assms have "\<bar>k\<bar> = 2 ^ 24" by simp
    then have "k = 2 ^ 24 \<or> k = - (2 ^ 24)" by linarith
    then have "real_of_int k = of_int (k div 2) * 2 powi ulp_exp (of_int k)"
      using True u by auto
    then show ?thesis by (rule r32_on_grid)
  next
    case False
    with e24 have d: "0 \<le> 23 - e" by simp
    have "(2::real) powi (e - 23) * 2 powi (23 - e) = 1"
      by (simp flip: power_int_add)
    moreover have "(2::real) powi (23 - e) = of_int (2 ^ nat (23 - e))"
      using d by (simp add: power_int_def)
    ultimately have "real_of_int k = of_int (k * 2 ^ nat (23 - e)) * 2 powi ulp_exp (of_int k)"
      using u by (simp add: mult.assoc mult.commute)
    then show ?thesis by (rule r32_on_grid)
  qed
qed

lemma r32_numeral [simp]:
  "numeral n \<le> (2 ^ 24 :: int) \<Longrightarrow> r32 (numeral n) = numeral n"
  "numeral n \<le> (2 ^ 24 :: int) \<Longrightarrow> r32 (- numeral n) = - numeral n"
  using r32_int [of "numeral n"] r32_int [of "- numeral n"] by simp_all

lemma r32_one [simp]: "r32 1 = 1" "r32 (- 1) = - 1"
  using r32_int [of 1] r32_int [of "- 1"] by simp_all

lemma r32_ge_pow2:
  assumes "0 < x" "- 126 \<le> \<lfloor>log 2 x\<rfloor>"
  shows "2 powi \<lfloor>log 2 x\<rfloor> \<le> r32 x"
proof -
  define e where "e = \<lfloor>log 2 x\<rfloor>"
  have b: "2 powi e \<le> \<bar>x\<bar>" "\<bar>x\<bar> < 2 powi (e + 1)"
    using floor_log2_bounds [OF assms(1)] assms(1) by (simp_all add: e_def)
  have r: "r32 x = of_int (round_even (x / 2 powi (e - 23))) * 2 powi (e - 23)"
    using b assms(2) by (intro r32_normal) (simp_all add: e_def)
  have "2 powi e / 2 powi (e - 23) \<le> x / 2 powi (e - 23)"
    using b(1) assms(1) by (intro divide_right_mono) simp_all
  moreover have "(2::real) powi e / 2 powi (e - 23) = of_int (2 ^ 23)"
    by (simp add: power_int_diff)
  ultimately have "of_int (2 ^ 23) \<le> x / 2 powi (e - 23)" by simp
  from round_even_ge [OF this]
  have "(of_int (2 ^ 23) :: real) \<le> of_int (round_even (x / 2 powi (e - 23)))"
    by (simp only: of_int_le_iff)
  then have "of_int (2 ^ 23) * 2 powi (e - 23) \<le> r32 x"
    unfolding r by (intro mult_right_mono) simp_all
  moreover have "of_int (2 ^ 23) * 2 powi (e - 23) = (2::real) powi e"
    by (simp add: power_int_diff)
  ultimately show ?thesis by (simp add: e_def)
qed

lemma r32_ge_one: "1 \<le> x \<Longrightarrow> 1 \<le> r32 x"
proof -
  assume x: "1 \<le> x"
  then have "\<lfloor>log 2 1\<rfloor> \<le> \<lfloor>log 2 x\<rfloor>" by (intro floor_log2_mono) simp_all
  then have e: "0 \<le> \<lfloor>log 2 x\<rfloor>" by simp
  then have "(1::real) \<le> 2 powi \<lfloor>log 2 x\<rfloor>"
    by (simp add: power_int_def)
  also have "\<dots> \<le> r32 x" using x e by (intro r32_ge_pow2) linarith+
  finally show ?thesis .
qed

lemma r32_tie: "r32 16777219 = 16777220"
  by (subst r32_eval_up [of 24]) (simp_all add: round_even_def)

lemma r32_half: "r32 (3 / 2) = 3 / 2" "r32 (1 / 2) = 1 / 2" "r32 (2 / 3) = 11184811 / 16777216"
  by (subst r32_eval_up [of 0], simp, simp, simp add: round_even_def)
     (subst r32_eval_down [of _ 1], simp, simp, simp, simp add: round_even_def)+


lemma r32_values:
  "r32 (- (3 / 2)) = - (3 / 2)"
  "r32 (33554433 / 16777216) = 2"
  "r32 (33554433 / 4194304) = 8"
  "r32 (1 / 1023) = 1049601 / 1073741824"
  "r32 (3 / 4) = 3 / 4"
proof -
  show "r32 (- (3 / 2)) = - (3 / 2)"
    by (subst r32_eval_up [of 0]) (simp_all add: round_even_def)
  show "r32 (33554433 / 16777216) = 2"
    by (subst r32_eval_up [of 1]) (simp_all add: round_even_def)
  show "r32 (33554433 / 4194304) = 8"
    by (subst r32_eval_up [of 3]) (simp_all add: round_even_def)
  show "r32 (1 / 1023) = 1049601 / 1073741824"
    by (subst r32_eval_down [of _ 10]) (simp_all add: round_even_def)
  show "r32 (3 / 4) = 3 / 4"
    by (subst r32_eval_down [of _ 1]) (simp_all add: round_even_def)
qed

lemma r32_max_float: "r32 max_float = max_float"
  unfolding max_float_def by (subst r32_eval_up [of 127]) (simp_all add: round_even_def)

lemma max_float_ge: "2 ^ 32 \<le> max_float"
  by (simp add: max_float_def)

section \<open>Facts about the float operations\<close>

lemma fl_Fin: "- max_float \<le> r32 x \<Longrightarrow> r32 x \<le> max_float \<Longrightarrow> fl x = Fin (r32 x)"
  by (simp add: fl_def)

lemma fl_exact: "r32 x = x \<Longrightarrow> \<bar>x\<bar> \<le> 2 ^ 32 \<Longrightarrow> fl x = Fin x"
proof -
  assume r: "r32 x = x" and b: "\<bar>x\<bar> \<le> 2 ^ 32"
  from b max_float_ge have "- max_float \<le> x" "x \<le> max_float"
    by linarith+
  with r show ?thesis
    by (simp add: fl_def)
qed

lemma fl_zero [simp]: "fl 0 = Fin 0"
  by (rule fl_exact) simp_all

lemma fl_one [simp]: "fl 1 = Fin 1" "fl (- 1) = Fin (- 1)"
  by (rule fl_exact; simp)+

lemma fl_numeral [simp]:
  "numeral n \<le> (2 ^ 24 :: int) \<Longrightarrow> fl (numeral n) = Fin (numeral n)"
  "numeral n \<le> (2 ^ 24 :: int) \<Longrightarrow> fl (- numeral n) = Fin (- numeral n)"
proof -
  assume n: "numeral n \<le> (2 ^ 24 :: int)"
  then have "real_of_int (numeral n) \<le> real_of_int (2 ^ 24)"
    by (simp only: of_int_le_iff)
  then have "(numeral n :: real) \<le> 2 ^ 24"
    by (simp only: of_int_numeral of_int_power)
  moreover have "(2 :: real) ^ 24 \<le> 2 ^ 32"
    by simp
  ultimately have b: "(numeral n :: real) \<le> 2 ^ 32"
    by (rule order_trans)
  from n b show "fl (numeral n) = Fin (numeral n)"
    by (intro fl_exact) simp_all
  from n b show "fl (- numeral n) = Fin (- numeral n)"
    by (intro fl_exact) simp_all
qed

lemma fl_values [simp]:
  "fl (3 / 2) = Fin (3 / 2)"
  "fl (- (3 / 2)) = Fin (- (3 / 2))"
  "fl (1 / 2) = Fin (1 / 2)"
  "fl (2 / 3) = Fin (11184811 / 16777216)"
  "fl (33554433 / 16777216) = Fin 2"
  "fl (33554433 / 4194304) = Fin 8"
  "fl (1 / 1023) = Fin (1049601 / 1073741824)"
  "fl (3 / 4) = Fin (3 / 4)"
  by (simp_all add: fl_def max_float_def r32_half r32_values)

lemma fl_bounded:
  assumes "0 \<le> x" "x \<le> F" "r32 F = F" "F \<le> max_float"
  shows "fl x = Fin (r32 x)" "0 \<le> r32 x" "r32 x \<le> F"
proof -
  show a: "0 \<le> r32 x"
    using assms(1) by (rule r32_nonneg)
  show b: "r32 x \<le> F"
    using assms(1-3) by (rule r32_le)
  from a b assms(4) show "fl x = Fin (r32 x)"
    by (intro fl_Fin) linarith+
qed

lemma f32_of_int_small: "0 \<le> k \<Longrightarrow> k \<le> 2 ^ 24 \<Longrightarrow> f32_of_int k = Fin (of_int k)"
proof -
  assume k: "0 \<le> k" "k \<le> 2 ^ 24"
  then have r: "r32 (of_int k) = of_int k"
    by (intro r32_int) simp
  from k have "real_of_int k \<le> real_of_int (2 ^ 24)"
    by (simp only: of_int_le_iff)
  with k have "\<bar>real_of_int k\<bar> \<le> 2 ^ 32"
    by simp
  with r show ?thesis
    unfolding f32_of_int_def by (intro fl_exact)
qed

lemma f32_of_int_zero [simp]: "f32_of_int 0 = Fin 0"
  by (simp add: f32_of_int_def)

lemma f32_of_int_numeral [simp]:
  "numeral n \<le> (2 ^ 24 :: int) \<Longrightarrow> f32_of_int (numeral n) = Fin (numeral n)"
  "f32_of_int 1 = Fin 1"
  by (simp_all add: f32_of_int_def)

lemma r32_pow32: "r32 (2 ^ 32) = 2 ^ 32"
  by (subst r32_eval_up [of 32]) (simp_all add: round_even_def)

lemma f32_of_int_pos:
  assumes "1 \<le> k" "k \<le> 2 ^ 32"
  shows "f32_of_int k = Fin (r32 (of_int k))" "1 \<le> r32 (of_int k)"
proof -
  from assms(2) have "real_of_int k \<le> real_of_int (2 ^ 32)"
    by (simp only: of_int_le_iff)
  then have le: "real_of_int k \<le> 2 ^ 32"
    by simp
  from assms(1) have ge: "1 \<le> real_of_int k"
    by simp
  show "1 \<le> r32 (of_int k)"
    using ge by (rule r32_ge_one)
  show "f32_of_int k = Fin (r32 (of_int k))"
    unfolding f32_of_int_def
    using fl_bounded(1) [of "real_of_int k" "2 ^ 32"] ge le r32_pow32 max_float_ge by simp
qed

lemma fadd_NaN [simp]: "fadd x NaN = NaN"
  by (cases x) simp_all

lemma fmul_NaN [simp]: "fmul x NaN = NaN"
  by (cases x) simp_all

lemma fdiv_NaN [simp]: "fdiv x NaN = NaN"
  by (cases x) simp_all

lemma flt_NaN [simp]: "\<not> flt x NaN"
  by (cases x) simp_all

lemma fle_NaN [simp]: "\<not> fle x NaN"
  by (cases x) simp_all

lemma fdiv_zero_by: "1 \<le> d \<Longrightarrow> fdiv (Fin 0) (Fin d) = Fin 0"
  by simp

section \<open>The logarithm of a float\<close>

lemma round_even_minus: "round_even (- y) = - round_even y"
proof (cases "y = of_int \<lfloor>y\<rfloor>")
  case True
  then obtain k where "y = of_int k" ..
  then show ?thesis
    using round_even_of_int [of "- k"] by simp
next
  case False
  then have c: "\<lceil>y\<rceil> = \<lfloor>y\<rfloor> + 1"
    by (metis ceiling_altdef)
  have f: "\<lfloor>- y\<rfloor> = - \<lfloor>y\<rfloor> - 1"
    using c by (simp add: floor_minus)
  show ?thesis
    unfolding round_even_def f using False by (auto simp: algebra_simps)
qed

lemma ulp_exp_minus: "ulp_exp (- x) = ulp_exp x"
  by (simp add: ulp_exp_def)

lemma r32_minus: "r32 (- x) = - r32 x"
  using round_even_minus [of "x / 2 powi ulp_exp x"] by (simp add: r32_def ulp_exp_minus)

lemma r32_pos:
  assumes "1 / 2 ^ 24 \<le> x"
  shows "0 < r32 x"
proof -
  have x: "0 < x"
    using assms by (rule less_le_trans [rotated]) simp
  have p: "(2::real) powi (- 24) = 1 / 2 ^ 24"
    by (simp add: power_int_minus field_simps)
  have "\<lfloor>log 2 ((2::real) powi (- 24))\<rfloor> = - 24"
    by (rule floor_log2_eq) (simp_all add: power_int_minus)
  moreover have "\<lfloor>log 2 ((2::real) powi (- 24))\<rfloor> \<le> \<lfloor>log 2 x\<rfloor>"
    using assms p by (intro floor_log2_mono) simp_all
  ultimately have "- 126 \<le> \<lfloor>log 2 x\<rfloor>"
    by simp
  then have "2 powi \<lfloor>log 2 x\<rfloor> \<le> r32 x"
    using x by (intro r32_ge_pow2)
  moreover have "(0::real) < 2 powi \<lfloor>log 2 x\<rfloor>"
    by simp
  ultimately show ?thesis
    by linarith
qed

lemma float_above_one:
  assumes "r32 s = s" and "1 < s"
  shows "1 + 1 / 2 ^ 23 \<le> s"
proof (cases "s < 2")
  case True
  have u: "ulp_exp s = - 23"
    using ulp_exp_normal [of 0 s] assms(2) True by simp
  define m where "m = round_even (s / 2 powi (- 23))"
  have s: "s = of_int m / 2 ^ 23"
    using assms u by (simp add: r32_def m_def power_int_minus field_simps split: if_splits)
  with assms(2) have "(2::real) ^ 23 < of_int m"
    by (simp add: field_simps)
  then have "real_of_int (2 ^ 23) < of_int m"
    by simp
  then have "2 ^ 23 < m"
    by (simp only: of_int_less_iff)
  then have "2 ^ 23 + 1 \<le> m"
    by simp
  then have "real_of_int (2 ^ 23 + 1) \<le> of_int m"
    by (simp only: of_int_le_iff)
  with s show ?thesis
    by (simp add: field_simps)
next
  case False
  then show ?thesis by simp
qed


lemma float_below_one:
  assumes "r32 s = s" and "0 < s" and "s < 1"
  shows "s \<le> 1 - 1 / 2 ^ 24"
proof (cases "1 / 2 \<le> s")
  case True
  have u: "ulp_exp s = - 24"
    using ulp_exp_normal [of "- 1" s] assms(2,3) True by (simp add: power_int_minus)
  define m where "m = round_even (s / 2 powi (- 24))"
  have s: "s = of_int m / 2 ^ 24"
    using assms u by (simp add: r32_def m_def power_int_minus field_simps split: if_splits)
  with assms(3) have "of_int m < (2::real) ^ 24"
    by (simp add: field_simps)
  then have "of_int m < real_of_int (2 ^ 24)"
    by simp
  then have "m < 2 ^ 24"
    by (simp only: of_int_less_iff)
  then have "m \<le> 2 ^ 24 - 1"
    by simp
  then have "of_int m \<le> real_of_int (2 ^ 24 - 1)"
    by (simp only: of_int_le_iff)
  with s show ?thesis
    by (simp add: field_simps)
next
  case False
  then show ?thesis by simp
qed

lemma float_least:
  assumes "r32 s = s" and "0 < s"
  shows "2 powi (- 149) \<le> s"
proof -
  define u where "u = ulp_exp s"
  define m where "m = round_even (s / 2 powi u)"
  have u: "- 149 \<le> u"
    by (simp add: u_def ulp_exp_def)
  have s: "s = of_int m * 2 powi u"
    using assms by (simp add: r32_def m_def u_def split: if_splits)
  have p: "(0::real) < 2 powi u"
    by simp
  from assms(2) s p have "0 < real_of_int m"
    by (simp add: zero_less_mult_iff)
  then have "1 \<le> m"
    by simp
  then have "1 \<le> real_of_int m"
    by simp
  then have "1 * (2::real) powi u \<le> of_int m * 2 powi u"
    using p by (intro mult_right_mono) simp_all
  with s have "2 powi u \<le> s"
    by simp
  moreover have "(2::real) powi (- 149) \<le> 2 powi u"
    using u by (intro power_int_increasing) simp_all
  ultimately show ?thesis
    by linarith
qed

lemma flog_nonzero_raw:
  assumes "r32 s = s" and "0 < s" and "s \<noteq> 1" and "s \<le> max_float"
  shows "flog (Fin s) = Fin (r32 (ln s))" and "r32 (ln s) \<noteq> 0"
proof -
  have "(flog (Fin s) = Fin (r32 (ln s))) \<and> r32 (ln s) \<noteq> 0"
  proof (cases "1 < s")
    case True
    have t: "1 + 1 / 2 ^ 23 \<le> s"
      using assms(1) True by (rule float_above_one)
    have "(1 / 2 ^ 23 :: real) - (1 / 2 ^ 23)\<^sup>2 \<le> ln (1 + 1 / 2 ^ 23)"
      by (rule ln_one_plus_pos_lower_bound) simp_all
    moreover have "ln (1 + 1 / 2 ^ 23) \<le> ln s"
      using t by simp
    ultimately have lo: "1 / 2 ^ 24 \<le> ln s"
      by (simp add: power2_eq_square)
    have "ln s \<le> s - 1"
      using assms(2) by (rule ln_le_minus_one)
    with assms(4) have hi: "ln s \<le> max_float"
      by linarith
    have pos: "0 < r32 (ln s)"
      using lo by (rule r32_pos)
    have "0 \<le> ln s"
      using True by simp
    then have "fl (ln s) = Fin (r32 (ln s))"
      using hi r32_max_float by (intro fl_bounded(1) [of _ max_float]) simp_all
    with pos assms(2) show ?thesis
      by simp
  next
    case False
    with assms(3) have lt: "s < 1"
      by simp
    have t: "s \<le> 1 - 1 / 2 ^ 24"
      using assms(1,2) lt by (rule float_below_one)
    have "ln s \<le> s - 1"
      using assms(2) by (rule ln_le_minus_one)
    with t have lo: "1 / 2 ^ 24 \<le> - ln s"
      by linarith
    have pos: "0 < r32 (- ln s)"
      using lo by (rule r32_pos)
    have "ln ((2::real) powi (- 149)) \<le> ln s"
      using float_least [OF assms(1,2)] by simp
    moreover have "ln ((2::real) powi (- 149)) = - (149 * ln 2)"
    proof -
      have "(2::real) powi (- 149) = inverse (2 ^ 149)"
        by (simp add: power_int_minus)
      moreover have "ln (inverse ((2::real) ^ 149)) = - ln (2 ^ 149)"
        by (rule ln_inverse)
      moreover have "ln ((2::real) ^ 149) = 149 * ln 2"
        using ln_realpow [of 2 149] by simp
      ultimately show ?thesis
        by simp
    qed
    moreover have "ln (2::real) \<le> 2 - 1"
      by (rule ln_le_minus_one) simp
    ultimately have hi: "- ln s \<le> 149"
      by linarith
    have "r32 (- ln s) \<le> 149"
      using lo hi by (intro r32_le) simp_all
    then have "r32 (- ln s) \<le> max_float"
      by (simp add: max_float_def)
    with pos have "fl (ln s) = Fin (r32 (ln s))"
      by (intro fl_Fin) (simp_all add: r32_minus)
    with pos assms(2) show ?thesis
      by (simp add: r32_minus)
  qed
  then show "flog (Fin s) = Fin (r32 (ln s))" and "r32 (ln s) \<noteq> 0"
    by simp_all
qed

lemma flog_nonzero:
  assumes "is_float s" and "0 < s" and "s \<noteq> 1"
  shows "flog (Fin s) = Fin (r32 (ln s))" and "r32 (ln s) \<noteq> 0"
proof -
  from assms(1) have r: "r32 s = s" and m: "s \<le> max_float"
    unfolding is_float_def by linarith+
  show "flog (Fin s) = Fin (r32 (ln s))" and "r32 (ln s) \<noteq> 0"
    using r assms(2,3) m by (rule flog_nonzero_raw)+
qed

lemma is_float_20: "is_float 20"
  by (simp add: is_float_def max_float_def)

section \<open>A larger maximal depth keeps an escape\<close>

lemma gl_loop_mono:
  "fst (gl_loop c M d z z2) \<le> M \<Longrightarrow> M \<le> M' \<Longrightarrow> gl_loop c M' d z z2 = gl_loop c M d z z2"
proof (induction c M d z z2 rule: gl_loop.induct)
  case (1 c M d z z2)
  show ?case
  proof (cases "d \<le> M \<and> fle (fadd (fst z2) (snd z2)) (Fin 4)")
    case True
    then have unf: "gl_loop c M d z z2 = gl_loop c M (d + 1) (next_z c z z2) (sq (next_z c z z2))"
      by (subst gl_loop.simps) simp
    from True "1.prems" have unf': "gl_loop c M' d z z2 = gl_loop c M' (d + 1) (next_z c z z2) (sq (next_z c z z2))"
      by (subst gl_loop.simps) simp
    from "1.IH" [OF True] "1.prems" unf unf' show ?thesis by simp
  next
    case False
    have unf: "gl_loop c M d z z2 = (d, z, z2)"
      by (subst gl_loop.simps) (simp only: False if_False)
    with "1.prems" False have "\<not> fle (fadd (fst z2) (snd z2)) (Fin 4)" by simp
    then have "gl_loop c M' d z z2 = (d, z, z2)"
      by (subst gl_loop.simps) simp
    with unf show ?thesis by simp
  qed
qed

lemma cl_loop_depth_le: "d \<le> M \<Longrightarrow> fst (cl_loop c M d z z2) \<le> M"
proof (induction c M d z z2 rule: cl_loop.induct)
  case (1 c M d z z2)
  show ?case
  proof (cases "d < M \<and> flt (fadd (fst z2) (snd z2)) (Fin 4)")
    case True
    then have "cl_loop c M d z z2 = cl_loop c M (d + 1) (next_z c z z2) (sq (next_z c z z2))"
      by (subst cl_loop.simps) simp
    with "1.IH" [OF True] True show ?thesis by simp
  next
    case False
    have "cl_loop c M d z z2 = (d, z, z2)"
      by (subst cl_loop.simps) (simp only: False if_False)
    with "1.prems" show ?thesis by simp
  qed
qed

lemma cl_loop_mono:
  "fst (cl_loop c M d z z2) \<noteq> M \<Longrightarrow> d \<le> M \<Longrightarrow> M \<le> M' \<Longrightarrow>
   cl_loop c M' d z z2 = cl_loop c M d z z2"
proof (induction c M d z z2 rule: cl_loop.induct)
  case (1 c M d z z2)
  show ?case
  proof (cases "d < M \<and> flt (fadd (fst z2) (snd z2)) (Fin 4)")
    case True
    then have unf: "cl_loop c M d z z2 = cl_loop c M (d + 1) (next_z c z z2) (sq (next_z c z z2))"
      by (subst cl_loop.simps) simp
    from True "1.prems" have unf': "cl_loop c M' d z z2 = cl_loop c M' (d + 1) (next_z c z z2) (sq (next_z c z z2))"
      by (subst cl_loop.simps) simp
    from "1.IH" [OF True] "1.prems" True unf unf' show ?thesis by simp
  next
    case False
    have unf: "cl_loop c M d z z2 = (d, z, z2)"
      by (subst cl_loop.simps) (simp only: False if_False)
    with "1.prems" False have "\<not> flt (fadd (fst z2) (snd z2)) (Fin 4)" by simp
    then have "cl_loop c M' d z z2 = (d, z, z2)"
      by (subst cl_loop.simps) simp
    with unf show ?thesis by simp
  qed
qed

text \<open>
  C7. Let \<open>1 \<le> maxDepth < maxDepth'\<close>. If a kernel's loop under \<open>maxDepth\<close> is left
  on the escaped side of the kernel's test (\<^verbatim>\<open>depth > maxDepth\<close> false in the shader,
  whose uniform is \<open>maxDepth - 1\<close>; \<^verbatim>\<open>depth == maxDepth\<close> false in the OpenCL kernel),
  then under \<open>maxDepth'\<close> the loop is left in the same state, so at the same \<open>depth\<close>,
  and again on the escaped side. This holds for every \<open>c\<close>, NaN and the infinities
  included.
\<close>

theorem escape_depth_monotone:
  assumes "1 \<le> maxDepth" and "maxDepth < maxDepth'"
  shows "(\<not> fst (gl_loop c (maxDepth - 1) 0 c (sq c)) > maxDepth - 1 \<longrightarrow>
            gl_loop c (maxDepth' - 1) 0 c (sq c) = gl_loop c (maxDepth - 1) 0 c (sq c)
          \<and> \<not> fst (gl_loop c (maxDepth' - 1) 0 c (sq c)) > maxDepth' - 1)
       \<and> (fst (cl_loop c maxDepth 0 c (sq c)) \<noteq> maxDepth \<longrightarrow>
            cl_loop c maxDepth' 0 c (sq c) = cl_loop c maxDepth 0 c (sq c)
          \<and> fst (cl_loop c maxDepth' 0 c (sq c)) \<noteq> maxDepth')"
proof (intro conjI impI)
  assume esc: "\<not> fst (gl_loop c (maxDepth - 1) 0 c (sq c)) > maxDepth - 1"
  then show eq: "gl_loop c (maxDepth' - 1) 0 c (sq c) = gl_loop c (maxDepth - 1) 0 c (sq c)"
    using assms by (intro gl_loop_mono) simp_all
  show "\<not> fst (gl_loop c (maxDepth' - 1) 0 c (sq c)) > maxDepth' - 1"
    using esc eq assms by simp
next
  assume esc: "fst (cl_loop c maxDepth 0 c (sq c)) \<noteq> maxDepth"
  then show eq: "cl_loop c maxDepth' 0 c (sq c) = cl_loop c maxDepth 0 c (sq c)"
    using assms by (intro cl_loop_mono) simp_all
  have "fst (cl_loop c maxDepth 0 c (sq c)) \<le> maxDepth"
    using assms by (intro cl_loop_depth_le) simp
  with eq assms show "fst (cl_loop c maxDepth' 0 c (sq c)) \<noteq> maxDepth'" by simp
qed

lemma sq_3: "sq (Fin 3, Fin 0) = (Fin 9, Fin 0)"
  by (simp add: sq_def)

lemma gl_loop_escapes_3:
  "gl_loop (Fin 3, Fin 0) M 0 (Fin 3, Fin 0) (sq (Fin 3, Fin 0)) = (0, (Fin 3, Fin 0), (Fin 9, Fin 0))"
  by (simp add: gl_loop.simps [of _ _ 0] sq_3)

lemma cl_loop_escapes_3:
  "cl_loop (Fin 3, Fin 0) M 0 (Fin 3, Fin 0) (sq (Fin 3, Fin 0)) = (0, (Fin 3, Fin 0), (Fin 9, Fin 0))"
  by (simp add: cl_loop.simps [of _ _ 0] sq_3)

theorem escape_depth_monotone_witness:
  "(1::int) \<le> 2 \<and> (2::int) < 50
   \<and> \<not> fst (gl_loop (Fin 3, Fin 0) (2 - 1) 0 (Fin 3, Fin 0) (sq (Fin 3, Fin 0))) > 2 - 1
   \<and> gl_loop (Fin 3, Fin 0) (50 - 1) 0 (Fin 3, Fin 0) (sq (Fin 3, Fin 0))
       = (0, (Fin 3, Fin 0), (Fin 9, Fin 0))
   \<and> fst (cl_loop (Fin 3, Fin 0) 2 0 (Fin 3, Fin 0) (sq (Fin 3, Fin 0))) \<noteq> 2
   \<and> cl_loop (Fin 3, Fin 0) 50 0 (Fin 3, Fin 0) (sq (Fin 3, Fin 0))
       = (0, (Fin 3, Fin 0), (Fin 9, Fin 0))"
  using escape_depth_monotone [of 2 50 "(Fin 3, Fin 0)"]
  by (simp add: gl_loop_escapes_3 cl_loop_escapes_3)

section \<open>Orbits that stay where they are\<close>

lemma step_origin:
  "next_z (Fin 0, Fin 0) (Fin 0, Fin 0) (Fin 0, Fin 0) = (Fin 0, Fin 0)"
  "sq (Fin 0, Fin 0) = (Fin 0, Fin 0)"
  by (simp_all add: next_z_def sq_def fsub_def)

lemma gl_loop_origin:
  "depth \<le> maxDepth + 1 \<Longrightarrow>
   gl_loop (Fin 0, Fin 0) maxDepth depth (Fin 0, Fin 0) (Fin 0, Fin 0)
     = (maxDepth + 1, (Fin 0, Fin 0), (Fin 0, Fin 0))"
proof (induction "nat (maxDepth + 1 - depth)" arbitrary: depth)
  case 0
  then have "depth = maxDepth + 1" by simp
  then show ?case by (simp add: gl_loop.simps [of _ _ "maxDepth + 1"])
next
  case (Suc n)
  then have le: "depth \<le> maxDepth" and n: "n = nat (maxDepth + 1 - (depth + 1))"
    by simp_all
  have "gl_loop (Fin 0, Fin 0) maxDepth (depth + 1) (Fin 0, Fin 0) (Fin 0, Fin 0)
      = (maxDepth + 1, (Fin 0, Fin 0), (Fin 0, Fin 0))"
    using Suc.hyps(1) [OF n] le by simp
  with le show ?case
    by (simp add: gl_loop.simps [of _ _ depth] step_origin)
qed

lemma cl_loop_origin:
  "depth \<le> maxDepth \<Longrightarrow>
   cl_loop (Fin 0, Fin 0) maxDepth depth (Fin 0, Fin 0) (Fin 0, Fin 0)
     = (maxDepth, (Fin 0, Fin 0), (Fin 0, Fin 0))"
proof (induction "nat (maxDepth - depth)" arbitrary: depth)
  case 0
  then have "depth = maxDepth" by simp
  then show ?case by (simp add: cl_loop.simps [of _ _ maxDepth])
next
  case (Suc n)
  then have lt: "depth < maxDepth" and n: "n = nat (maxDepth - (depth + 1))"
    by simp_all
  have "cl_loop (Fin 0, Fin 0) maxDepth (depth + 1) (Fin 0, Fin 0) (Fin 0, Fin 0)
      = (maxDepth, (Fin 0, Fin 0), (Fin 0, Fin 0))"
    using Suc.hyps(1) [OF n] lt by simp
  with lt show ?case
    by (simp add: cl_loop.simps [of _ _ depth] step_origin)
qed

section \<open>Members of the set are black\<close>

text \<open>
  C4. When a kernel's loop runs to \<open>maxDepth\<close> (it is left with \<open>depth = maxDepth\<close>;
  the shader's uniform is \<open>maxDepth - 1\<close>), the kernel stores opaque black
  \<open>(0, 0, 0, 255)\<close>, for the interpolated \<open>c\<close> of every pixel, and whatever the palette
  is: no entry of it is read.
\<close>

theorem member_is_black:
  "(fst (gl_loop c (maxDepth - 1) 0 c (sq c)) = maxDepth \<longrightarrow>
        gl_shade (u\<lparr>u_maxDepth := maxDepth - 1\<rparr>) palette c = Inr (0, 0, 0, 255)
      \<and> (gl_interpolate (u\<lparr>u_maxDepth := maxDepth - 1\<rparr>) pixel = c \<longrightarrow>
           shader_main (u\<lparr>u_maxDepth := maxDepth - 1\<rparr>) palette pixel = Inr (0, 0, 0, 255)))
   \<and> (fst (cl_loop c maxDepth 0 c (sq c)) = maxDepth \<longrightarrow>
        cl_shade palette paletteSize maxDepth scaleForce c = Inr (0, 0, 0, 255)
      \<and> (cl_interpolate cmin delta gid gsize = c \<longrightarrow>
           mandelbrot palette paletteSize cmin delta maxDepth scaleForce gid gsize
             = Inr (0, 0, 0, 255)))"
  by (simp add: gl_shade_def shader_main_def gl_colour_def cl_shade_def mandelbrot_def
        cl_colour_def black_def)

theorem member_is_black_witness:
  "fst (gl_loop (Fin 0, Fin 0) (2 - 1) 0 (Fin 0, Fin 0) (sq (Fin 0, Fin 0))) = 2
   \<and> gl_interpolate \<lparr>u_size = (Fin 3, Fin 2), u_paletteSize = - 1,
        u_cmin = (Fin (- 2), Fin (- (3 / 2))), u_cdelta = (Fin 3, Fin 3), u_maxDepth = 2 - 1,
        u_scaleForce = Fin 20\<rparr> (2, 1) = (Fin 0, Fin 0)
   \<and> shader_main \<lparr>u_size = (Fin 3, Fin 2), u_paletteSize = - 1,
        u_cmin = (Fin (- 2), Fin (- (3 / 2))), u_cdelta = (Fin 3, Fin 3), u_maxDepth = 2 - 1,
        u_scaleForce = Fin 20\<rparr> [] (2, 1)
       = Inr (0, 0, 0, 255)
   \<and> fst (cl_loop (Fin 0, Fin 0) 2 0 (Fin 0, Fin 0) (sq (Fin 0, Fin 0))) = 2
   \<and> cl_interpolate (Fin (- 2), Fin (- (3 / 2))) (Fin 3, Fin 3) (2, 1) (4, 3) = (Fin 0, Fin 0)
   \<and> mandelbrot [] 0 (Fin (- 2), Fin (- (3 / 2))) (Fin 3, Fin 3) 2 (Fin 20) (2, 1) (4, 3)
       = Inr (0, 0, 0, 255)"
  using member_is_black [of "(Fin 0, Fin 0)" 2
      "\<lparr>u_size = (Fin 3, Fin 2), u_paletteSize = - 1,
        u_cmin = (Fin (- 2), Fin (- (3 / 2))), u_cdelta = (Fin 3, Fin 3), u_maxDepth = 1,
        u_scaleForce = Fin 20\<rparr>" "[]" "(2, 1)" 0 "Fin 20"
      "(Fin (- 2), Fin (- (3 / 2)))" "(Fin 3, Fin 3)" "(2, 1)" "(4, 3)"]
    gl_loop_origin [of 0 1] cl_loop_origin [of 0 2]
  by (simp add: step_origin gl_interpolate_def cl_interpolate_def cl_size_def)

section \<open>The origin never escapes\<close>

text \<open>
  C8. For \<open>c = 0\<close> and every \<open>maxDepth \<ge> 1\<close> (the host's value; the shader's uniform is
  \<open>maxDepth - 1\<close>), every iterate is the origin, so \<open>|z|\<^sup>2\<close> never exceeds 4; the loop
  of each kernel runs to \<open>maxDepth\<close> with \<open>z\<close> still at the origin, and the result is
  opaque black \<open>(0, 0, 0, 255)\<close>, whatever the palette, the palette size and
  \<open>scaleForce\<close> are.
\<close>

theorem origin_is_black:
  assumes "1 \<le> maxDepth"
  shows "orbit (0, 0) n = (0, 0) \<and> norm2 (orbit (0, 0) n) \<le> 4
       \<and> gl_loop (Fin 0, Fin 0) (maxDepth - 1) 0 (Fin 0, Fin 0) (sq (Fin 0, Fin 0))
           = (maxDepth, (Fin 0, Fin 0), (Fin 0, Fin 0))
       \<and> cl_loop (Fin 0, Fin 0) maxDepth 0 (Fin 0, Fin 0) (sq (Fin 0, Fin 0))
           = (maxDepth, (Fin 0, Fin 0), (Fin 0, Fin 0))
       \<and> gl_shade (u\<lparr>u_maxDepth := maxDepth - 1\<rparr>) palette (Fin 0, Fin 0) = Inr (0, 0, 0, 255)
       \<and> cl_shade palette paletteSize maxDepth scaleForce (Fin 0, Fin 0) = Inr (0, 0, 0, 255)"
proof -
  have g: "gl_loop (Fin 0, Fin 0) (maxDepth - 1) 0 (Fin 0, Fin 0) (Fin 0, Fin 0)
      = (maxDepth, (Fin 0, Fin 0), (Fin 0, Fin 0))"
    using gl_loop_origin [of 0 "maxDepth - 1"] assms by simp
  have c: "cl_loop (Fin 0, Fin 0) maxDepth 0 (Fin 0, Fin 0) (Fin 0, Fin 0)
      = (maxDepth, (Fin 0, Fin 0), (Fin 0, Fin 0))"
    using cl_loop_origin [of 0 maxDepth] assms by simp
  have o: "orbit (0, 0) n = (0, 0)"
    by (induction n) simp_all
  show ?thesis
    using g c o
    by (simp add: gl_shade_def cl_shade_def gl_colour_def cl_colour_def step_origin black_def
        norm2_def)
qed

theorem origin_is_black_witness:
  "(1::int) \<le> 50
   \<and> gl_shade \<lparr>u_size = (Fin 3, Fin 3), u_paletteSize = 1,
        u_cmin = (Fin (- 2), Fin (- (3 / 2))), u_cdelta = (Fin 3, Fin 3),
        u_maxDepth = 49, u_scaleForce = Fin 20\<rparr> [(255, 255, 255, 255), (0, 0, 0, 255)]
        (Fin 0, Fin 0)
       = Inr (0, 0, 0, 255)
   \<and> cl_shade [(255, 255, 255, 255), (0, 0, 0, 255)] 2 50 (Fin 20) (Fin 0, Fin 0)
       = Inr (0, 0, 0, 255)"
  using origin_is_black [of 50 0
      "\<lparr>u_size = (Fin 3, Fin 3), u_paletteSize = 1,
        u_cmin = (Fin (- 2), Fin (- (3 / 2))), u_cdelta = (Fin 3, Fin 3),
        u_maxDepth = 49, u_scaleForce = Fin 20\<rparr>"
      "[(255, 255, 255, 255), (0, 0, 0, 255)]" 2 "Fin 20"]
  by simp

section \<open>The palette index\<close>

lemma flog_20: "flog (Fin 20) = Fin (r32 (ln 20))" "r32 (ln 20) \<noteq> 0"
  using flog_nonzero [OF is_float_20] by simp_all

lemma log_ratio_zero:
  assumes "flog scaleForce = Fin l" and "l \<noteq> 0"
  shows "log_ratio (Fin 0) scaleForce = Fin 0"
proof (cases scaleForce)
  case (Fin s)
  with assms show ?thesis
    by (simp add: log_ratio_def)
next
  case PInf
  with assms show ?thesis by simp
next
  case NInf
  with assms show ?thesis by simp
next
  case NaN
  with assms show ?thesis by simp
qed

lemma log_ratio_NaN: "log_ratio NaN scaleForce = NaN"
  by (simp add: log_ratio_def)

lemma index_at_zero:
  assumes "0 \<le> k" and "k \<le> 2 ^ 24"
  shows "int_round (fmul (fsub (Fin 1) (Fin 0)) (f32_of_int k)) = Inr k"
    and "int_floor (fmul (fsub (Fin 1) (Fin 0)) (f32_of_int k)) = Inr k"
proof -
  have f: "f32_of_int k = Fin (of_int k)"
    using assms by (rule f32_of_int_small)
  have "fl (real_of_int k) = Fin (of_int k)"
    using f by (simp add: f32_of_int_def)
  then have m: "fmul (fsub (Fin 1) (Fin 0)) (f32_of_int k) = Fin (of_int k)"
    using f by (simp add: fsub_def)
  from assms have "k < 2 ^ 31"
    by simp
  with assms(1) m show "int_round (fmul (fsub (Fin 1) (Fin 0)) (f32_of_int k)) = Inr k"
    and "int_floor (fmul (fsub (Fin 1) (Fin 0)) (f32_of_int k)) = Inr k"
    by (simp_all add: int_in_range_def)
qed

lemma index_at_one:
  assumes "0 \<le> k" and "k \<le> 2 ^ 24"
  shows "int_round (fmul (fsub (Fin 1) (Fin 1)) (f32_of_int k)) = Inr 0"
    and "int_floor (fmul (fsub (Fin 1) (Fin 1)) (f32_of_int k)) = Inr 0"
proof -
  have f: "f32_of_int k = Fin (of_int k)"
    using assms by (rule f32_of_int_small)
  then have m: "fmul (fsub (Fin 1) (Fin 1)) (f32_of_int k) = Fin 0"
    by (simp add: fsub_def)
  then show "int_round (fmul (fsub (Fin 1) (Fin 1)) (f32_of_int k)) = Inr 0"
    and "int_floor (fmul (fsub (Fin 1) (Fin 1)) (f32_of_int k)) = Inr 0"
    by (simp_all add: int_in_range_def)
qed

lemma gl_escape_index_zero:
  assumes "1 \<le> u_maxDepth u" and "u_maxDepth u \<le> 2 ^ 32"
    and "flog (u_scaleForce u) = Fin l" and "l \<noteq> 0"
    and "0 \<le> u_paletteSize u" and "u_paletteSize u \<le> 2 ^ 24"
  shows "gl_escape_index u 0 = Inr (u_paletteSize u)"
proof -
  have "gl_normalise 0 (u_maxDepth u) = Fin 0"
    using f32_of_int_pos [OF assms(1,2)] by (simp add: gl_normalise_def)
  moreover have "log_ratio (Fin 0) (u_scaleForce u) = Fin 0"
    using assms(3,4) by (rule log_ratio_zero)
  ultimately have "gl_smooth (gl_normalise 0 (u_maxDepth u)) (u_scaleForce u) = Fin 0"
    by (simp add: gl_smooth_def gl_min_def)
  then show ?thesis
    using index_at_zero(1) [OF assms(5,6)] by (simp add: gl_escape_index_def gl_index_def)
qed

lemma cl_escape_index_zero:
  assumes "2 \<le> maxDepth" and "maxDepth < 2 ^ 32"
    and "flog scaleForce = Fin l" and "l \<noteq> 0"
    and "1 \<le> paletteSize" and "paletteSize \<le> 2 ^ 24 + 1"
  shows "cl_escape_index paletteSize maxDepth scaleForce 0 = Inr (paletteSize - 1)"
proof -
  from assms(1,2) have m: "(maxDepth - 1) mod 2 ^ 32 = maxDepth - 1"
    by (intro mod_pos_pos_trivial) simp_all
  from assms(1,2) have "1 \<le> maxDepth - 1" "maxDepth - 1 \<le> 2 ^ 32"
    by simp_all
  then have "cl_normalise 0 maxDepth = Fin 0"
    using f32_of_int_pos [of "maxDepth - 1"] m by (simp add: cl_normalise_def)
  moreover have "log_ratio (Fin 0) scaleForce = Fin 0"
    using assms(3,4) by (rule log_ratio_zero)
  ultimately have "cl_smooth (cl_normalise 0 maxDepth) scaleForce = Fin 0"
    by (simp add: cl_smooth_def cl_fmin_def)
  moreover from assms(5,6) have "0 \<le> paletteSize - 1" "paletteSize - 1 \<le> 2 ^ 24"
    by simp_all
  ultimately show ?thesis
    using index_at_zero(2) [of "paletteSize - 1"] by (simp add: cl_escape_index_def cl_index_def)
qed

lemma scaled_index:
  assumes "0 \<le> r" and "r \<le> 1" and "0 \<le> k" and "k \<le> 2 ^ 24"
  shows "\<exists>p. fmul (fsub (Fin 1) (Fin r)) (f32_of_int k) = Fin p \<and> 0 \<le> p \<and> p \<le> of_int k"
proof -
  have f: "f32_of_int k = Fin (of_int k)"
    using assms(3,4) by (rule f32_of_int_small)
  have rk: "r32 (real_of_int k) = real_of_int k"
    using assms(3,4) by (intro r32_int) simp
  from assms(4) have "real_of_int k \<le> real_of_int (2 ^ 24)"
    by (simp only: of_int_le_iff)
  then have kb: "real_of_int k \<le> 2 ^ 32"
    by simp
  then have km: "real_of_int k \<le> max_float"
    using max_float_ge by linarith
  have a: "fl (1 - r) = Fin (r32 (1 - r))" "0 \<le> r32 (1 - r)" "r32 (1 - r) \<le> 1"
    using assms(1,2) by (intro fl_bounded [of _ 1]; simp add: max_float_def)+
  have "r32 (1 - r) * real_of_int k \<le> 1 * real_of_int k"
    using a(3) assms(3) by (intro mult_right_mono) simp_all
  then have hi: "r32 (1 - r) * real_of_int k \<le> real_of_int k"
    by simp
  have lo: "0 \<le> r32 (1 - r) * real_of_int k"
    using a(2) assms(3) by simp
  have p: "fl (r32 (1 - r) * real_of_int k) = Fin (r32 (r32 (1 - r) * real_of_int k))"
    "0 \<le> r32 (r32 (1 - r) * real_of_int k)"
    "r32 (r32 (1 - r) * real_of_int k) \<le> real_of_int k"
    using lo hi rk km by (rule fl_bounded)+
  have "fmul (fsub (Fin 1) (Fin r)) (f32_of_int k) = Fin (r32 (r32 (1 - r) * real_of_int k))"
    using f a(1) p(1) by (simp add: fsub_def)
  with p(2,3) show ?thesis
    by blast
qed

text \<open>
  C5 (as amended). For \<open>ie\<close> in \<open>[0, 1]\<close> and a palette size
  \<open>1 \<le> N \<le> 2\<^sup>2\<^sup>4 + 1\<close> (the shader's uniform is \<open>N - 1\<close>), the index each kernel
  computes lies in \<open>[0, N - 1]\<close>, so the read of a palette of at least \<open>N\<close> entries is
  in range. Up to \<open>2\<^sup>2\<^sup>4\<close> the conversion of \<open>N - 1\<close> to \<^verbatim>\<open>float\<close> is exact.
\<close>

theorem palette_index_in_bounds:
  assumes "0 \<le> ie" and "ie \<le> 1" and "1 \<le> N" and "N \<le> 2 ^ 24 + 1"
    and "N \<le> int (length palette)"
  shows "\<exists>g c. gl_index (Fin ie) (N - 1) = Inr g \<and> 0 \<le> g \<and> g \<le> N - 1
           \<and> cl_index (Fin ie) N = Inr c \<and> 0 \<le> c \<and> c \<le> N - 1
           \<and> palette_at palette g = Inr (palette ! nat g)
           \<and> palette_at palette c = Inr (palette ! nat c)"
proof -
  from assms(3,4) have k: "0 \<le> N - 1" "N - 1 \<le> 2 ^ 24"
    by simp_all
  obtain p where p: "fmul (fsub (Fin 1) (Fin ie)) (f32_of_int (N - 1)) = Fin p"
    and lo: "0 \<le> p" and hi: "p \<le> real_of_int (N - 1)"
    using scaled_index [OF assms(1,2) k] by blast
  have g0: "0 \<le> round p"
    using lo by (simp add: round_def)
  have g1: "round p \<le> N - 1"
    using round_mono [OF hi] by (simp only: round_of_int)
  have c0: "0 \<le> \<lfloor>p\<rfloor>"
    using lo by simp
  have c1: "\<lfloor>p\<rfloor> \<le> N - 1"
    using floor_mono [OF hi] by (simp only: floor_of_int)
  from k have r: "N - 1 < 2 ^ 31"
    by simp
  from g0 g1 r have gr: "- (2 ^ 31) \<le> round p" "round p < 2 ^ 31"
    by linarith+
  from c0 c1 r have cr: "- (2 ^ 31) \<le> \<lfloor>p\<rfloor>" "\<lfloor>p\<rfloor> < 2 ^ 31"
    by linarith+
  have "int_in_range (round p) = Inr (round p)"
    unfolding int_in_range_def using gr by (simp only: simp_thms if_True)
  then have "gl_index (Fin ie) (N - 1) = Inr (round p)"
    using p by (simp add: gl_index_def)
  moreover have "int_in_range \<lfloor>p\<rfloor> = Inr \<lfloor>p\<rfloor>"
    unfolding int_in_range_def using cr by (simp only: simp_thms if_True)
  then have "cl_index (Fin ie) N = Inr \<lfloor>p\<rfloor>"
    using p by (simp add: cl_index_def)
  moreover have "palette_at palette (round p) = Inr (palette ! nat (round p))"
    using g0 g1 assms(5) by (simp add: palette_at_def)
  moreover have "palette_at palette \<lfloor>p\<rfloor> = Inr (palette ! nat \<lfloor>p\<rfloor>)"
    using c0 c1 assms(5) by (simp add: palette_at_def)
  ultimately show ?thesis
    using g0 g1 c0 c1 by blast
qed

theorem palette_index_in_bounds_witness:
  "(0::real) \<le> 1 / 4 \<and> (1::real) / 4 \<le> 1 \<and> (1::int) \<le> 2 \<and> (2::int) \<le> 2 ^ 24 + 1
   \<and> 2 \<le> int (length [(255, 255, 255, 255), (0, 0, 0, 255) :: rgba8])
   \<and> (\<exists>g c. gl_index (Fin (1 / 4)) (2 - 1) = Inr g \<and> 0 \<le> g \<and> g \<le> 2 - 1
           \<and> cl_index (Fin (1 / 4)) 2 = Inr c \<and> 0 \<le> c \<and> c \<le> 2 - 1
           \<and> palette_at [(255, 255, 255, 255), (0, 0, 0, 255)] g
               = Inr ([(255, 255, 255, 255), (0, 0, 0, 255)] ! nat g)
           \<and> palette_at [(255, 255, 255, 255), (0, 0, 0, 255)] c
               = Inr ([(255, 255, 255, 255), (0, 0, 0, 255)] ! nat c))
   \<and> gl_index (Fin (1 / 4)) (2 - 1) = Inr 1 \<and> cl_index (Fin (1 / 4)) 2 = Inr 0
   \<and> gl_index (Fin 0) (2 - 1) = Inr 1 \<and> cl_index (Fin 0) 2 = Inr 1
   \<and> gl_index (Fin 1) (2 - 1) = Inr 0 \<and> cl_index (Fin 1) 2 = Inr 0"
  using palette_index_in_bounds [of "1 / 4" 2 "[(255, 255, 255, 255), (0, 0, 0, 255)]"]
  by (simp add: gl_index_def cl_index_def fsub_def int_in_range_def round_def)

lemma r32_above: "r32 16777220 = 16777220"
  by (subst r32_eval_up [of 24]) (simp_all add: round_even_def)

lemma f32_of_int_tie: "f32_of_int 16777219 = Fin 16777220"
  by (simp add: f32_of_int_def fl_def r32_tie max_float_def)

text \<open>
  The claim as stated, for every palette size \<open>N \<ge> 1\<close>, fails at \<open>N = 16777220\<close> and
  \<open>ie = 0\<close>: the conversion of \<open>N - 1 = 16777219\<close> to \<^verbatim>\<open>float\<close> gives 16777220, both
  kernels compute the index \<open>N\<close>, and a palette of \<open>N\<close> entries has no entry \<open>N\<close>.
\<close>

theorem palette_index_past_the_end:
  "f32_of_int (16777220 - 1) = Fin 16777220
   \<and> gl_index (Fin 0) (16777220 - 1) = Inr 16777220
   \<and> cl_index (Fin 0) 16777220 = Inr 16777220
   \<and> palette_at (replicate 16777220 black) 16777220 = Inl PaletteOutOfRange"
  by (simp add: gl_index_def cl_index_def fsub_def f32_of_int_tie fl_def r32_above max_float_def
      int_in_range_def palette_at_def)

section \<open>An immediate escape\<close>

text \<open>
  C6 (as amended). For \<open>c = (3, 0)\<close>, with \<open>2 \<le> maxDepth < 2\<^sup>3\<^sup>2\<close>, a float
  \<open>scaleForce\<close> that is positive and not 1 and a
  palette of at least \<open>N\<close> entries, \<open>1 \<le> N \<le> 2\<^sup>2\<^sup>4 + 1\<close>: the first test of each loop
  fails (\<open>|c|\<^sup>2 = 9\<close>), the body never runs, \<open>depth\<close> is 0, the pixel is on the escaped
  side of the kernel's test, and the palette index is \<open>N - 1\<close>, the high end of the
  range; the colour is the last of the \<open>N\<close> entries.
\<close>

theorem immediate_escape:
  assumes "2 \<le> maxDepth" and "maxDepth < 2 ^ 32"
    and "is_float scaleForce" and "0 < scaleForce" and "scaleForce \<noteq> 1"
    and "1 \<le> N" and "N \<le> int (length palette)" and "N \<le> 2 ^ 24 + 1"
    and "u_maxDepth u = maxDepth - 1" and "u_scaleForce u = Fin scaleForce"
    and "u_paletteSize u = N - 1"
  shows "gl_loop (Fin 3, Fin 0) (u_maxDepth u) 0 (Fin 3, Fin 0) (sq (Fin 3, Fin 0))
           = (0, (Fin 3, Fin 0), (Fin 9, Fin 0))
       \<and> \<not> 0 > u_maxDepth u
       \<and> gl_escape_index u 0 = Inr (N - 1)
       \<and> gl_shade u palette (Fin 3, Fin 0) = Inr (palette ! nat (N - 1))
       \<and> cl_loop (Fin 3, Fin 0) maxDepth 0 (Fin 3, Fin 0) (sq (Fin 3, Fin 0))
           = (0, (Fin 3, Fin 0), (Fin 9, Fin 0))
       \<and> 0 \<noteq> maxDepth
       \<and> cl_escape_index N maxDepth (Fin scaleForce) 0 = Inr (N - 1)
       \<and> cl_shade palette N maxDepth (Fin scaleForce) (Fin 3, Fin 0)
           = Inr (palette ! nat (N - 1))"
proof -
  have l: "flog (Fin scaleForce) = Fin (r32 (ln scaleForce))" "r32 (ln scaleForce) \<noteq> 0"
    using assms(3,4,5) by (rule flog_nonzero)+
  have gi: "gl_escape_index u 0 = Inr (N - 1)"
    using gl_escape_index_zero [of u "r32 (ln scaleForce)"] assms l by simp
  have ci: "cl_escape_index N maxDepth (Fin scaleForce) 0 = Inr (N - 1)"
    using cl_escape_index_zero [of maxDepth "Fin scaleForce" "r32 (ln scaleForce)" N] assms l
    by simp
  have at: "palette_at palette (N - 1) = Inr (palette ! nat (N - 1))"
    using assms by (simp add: palette_at_def)
  have gs: "gl_shade u palette (Fin 3, Fin 0) = Inr (palette ! nat (N - 1))"
    using gi at assms by (simp add: gl_shade_def gl_loop_escapes_3 gl_colour_def)
  have cs: "cl_shade palette N maxDepth (Fin scaleForce) (Fin 3, Fin 0)
      = Inr (palette ! nat (N - 1))"
    using ci at assms by (simp add: cl_shade_def cl_loop_escapes_3 cl_colour_def)
  from gi ci gs cs assms show ?thesis
    by (simp add: gl_loop_escapes_3 cl_loop_escapes_3)
qed

theorem immediate_escape_witness:
  "is_float 20
   \<and> gl_escape_index \<lparr>u_size = (Fin 3, Fin 3), u_paletteSize = 2 - 1,
        u_cmin = (Fin (- 2), Fin (- (3 / 2))), u_cdelta = (Fin 3, Fin 3), u_maxDepth = 50 - 1,
        u_scaleForce = Fin 20\<rparr> 0 = Inr (2 - 1)
   \<and> gl_shade \<lparr>u_size = (Fin 3, Fin 3), u_paletteSize = 2 - 1,
        u_cmin = (Fin (- 2), Fin (- (3 / 2))), u_cdelta = (Fin 3, Fin 3), u_maxDepth = 50 - 1,
        u_scaleForce = Fin 20\<rparr>
        [(255, 0, 0, 255), (0, 0, 255, 255)] (Fin 3, Fin 0) = Inr (0, 0, 255, 255)
   \<and> cl_escape_index 2 50 (Fin 20) 0 = Inr (2 - 1)
   \<and> cl_shade [(255, 0, 0, 255), (0, 0, 255, 255)] 2 50 (Fin 20) (Fin 3, Fin 0)
       = Inr (0, 0, 255, 255)"
  using immediate_escape [of 50 20 2 "[(255, 0, 0, 255), (0, 0, 255, 255)]"
      "\<lparr>u_size = (Fin 3, Fin 3), u_paletteSize = 2 - 1,
        u_cmin = (Fin (- 2), Fin (- (3 / 2))), u_cdelta = (Fin 3, Fin 3), u_maxDepth = 50 - 1,
        u_scaleForce = Fin 20\<rparr>"] is_float_20
  by simp

text \<open>
  The claim as stated, that the index lands at the low end of the range, fails for a
  palette of two entries, \<open>maxDepth = 50\<close>, \<open>scaleForce = 20\<close>: both kernels compute
  index 1, not 0.
\<close>

theorem immediate_escape_high_end:
  "gl_escape_index \<lparr>u_size = (Fin 3, Fin 3), u_paletteSize = 1,
        u_cmin = (Fin (- 2), Fin (- (3 / 2))), u_cdelta = (Fin 3, Fin 3), u_maxDepth = 49,
        u_scaleForce = Fin 20\<rparr>
      (fst (gl_loop (Fin 3, Fin 0) 49 0 (Fin 3, Fin 0) (sq (Fin 3, Fin 0)))) = Inr 1
   \<and> cl_escape_index 2 50 (Fin 20)
      (fst (cl_loop (Fin 3, Fin 0) 50 0 (Fin 3, Fin 0) (sq (Fin 3, Fin 0)))) = Inr 1
   \<and> gl_escape_index \<lparr>u_size = (Fin 3, Fin 3), u_paletteSize = 1,
        u_cmin = (Fin (- 2), Fin (- (3 / 2))), u_cdelta = (Fin 3, Fin 3), u_maxDepth = 49,
        u_scaleForce = Fin 20\<rparr>
      (fst (gl_loop (Fin 3, Fin 0) 49 0 (Fin 3, Fin 0) (sq (Fin 3, Fin 0)))) \<noteq> Inr 0
   \<and> cl_escape_index 2 50 (Fin 20)
      (fst (cl_loop (Fin 3, Fin 0) 50 0 (Fin 3, Fin 0) (sq (Fin 3, Fin 0)))) \<noteq> Inr 0"
proof -
  have l: "flog (Fin 20) = Fin (r32 (ln 20))" "r32 (ln 20) \<noteq> 0"
    using flog_20 by simp_all
  have "gl_escape_index \<lparr>u_size = (Fin 3, Fin 3), u_paletteSize = 1,
        u_cmin = (Fin (- 2), Fin (- (3 / 2))), u_cdelta = (Fin 3, Fin 3), u_maxDepth = 49,
        u_scaleForce = Fin 20\<rparr> 0 = Inr 1"
    using gl_escape_index_zero [of "\<lparr>u_size = (Fin 3, Fin 3), u_paletteSize = 1,
        u_cmin = (Fin (- 2), Fin (- (3 / 2))), u_cdelta = (Fin 3, Fin 3), u_maxDepth = 49,
        u_scaleForce = Fin 20\<rparr>" "r32 (ln 20)"] l
    by simp
  moreover have "cl_escape_index 2 50 (Fin 20) 0 = Inr 1"
    using cl_escape_index_zero [of 50 "Fin 20" "r32 (ln 20)" 2] l by simp
  ultimately show ?thesis
    by (simp add: gl_loop_escapes_3 cl_loop_escapes_3)
qed

section \<open>The boundary of the escape test\<close>

lemma gl_loop_fixed:
  assumes "next_z c z (sq z) = z" and "fle (fadd (fst (sq z)) (snd (sq z))) (Fin 4)"
  shows "depth \<le> maxDepth + 1 \<Longrightarrow> gl_loop c maxDepth depth z (sq z) = (maxDepth + 1, z, sq z)"
proof (induction "nat (maxDepth + 1 - depth)" arbitrary: depth)
  case 0
  then have "depth = maxDepth + 1" by simp
  then show ?case by (simp add: gl_loop.simps [of _ _ "maxDepth + 1"])
next
  case (Suc n)
  then have le: "depth \<le> maxDepth" and n: "n = nat (maxDepth + 1 - (depth + 1))"
    by simp_all
  have "gl_loop c maxDepth (depth + 1) z (sq z) = (maxDepth + 1, z, sq z)"
    using Suc.hyps(1) [OF n] le by simp
  with le assms show ?case
    by (simp add: gl_loop.simps [of _ _ depth])
qed

lemma sq_two: "sq (Fin (- 2), Fin 0) = (Fin 4, Fin 0)" "sq (Fin 2, Fin 0) = (Fin 4, Fin 0)"
  by (simp_all add: sq_def)

lemma next_z_two:
  "next_z (Fin (- 2), Fin 0) (Fin (- 2), Fin 0) (Fin 4, Fin 0) = (Fin 2, Fin 0)"
  "next_z (Fin (- 2), Fin 0) (Fin 2, Fin 0) (Fin 4, Fin 0) = (Fin 2, Fin 0)"
  by (simp_all add: next_z_def fsub_def)

lemma gl_loop_minus_two:
  "0 \<le> M \<Longrightarrow>
   gl_loop (Fin (- 2), Fin 0) M 0 (Fin (- 2), Fin 0) (sq (Fin (- 2), Fin 0))
     = (M + 1, (Fin 2, Fin 0), (Fin 4, Fin 0))"
proof -
  assume "0 \<le> M"
  have fixed: "gl_loop (Fin (- 2), Fin 0) M 1 (Fin 2, Fin 0) (sq (Fin 2, Fin 0))
      = (M + 1, (Fin 2, Fin 0), sq (Fin 2, Fin 0))"
    using \<open>0 \<le> M\<close> by (intro gl_loop_fixed) (simp_all add: next_z_two sq_two)
  have "gl_loop (Fin (- 2), Fin 0) M 0 (Fin (- 2), Fin 0) (sq (Fin (- 2), Fin 0))
      = gl_loop (Fin (- 2), Fin 0) M 1 (Fin 2, Fin 0) (sq (Fin 2, Fin 0))"
    using \<open>0 \<le> M\<close> by (subst gl_loop.simps) (simp add: next_z_two sq_two)
  with fixed show ?thesis by (simp add: sq_two)
qed

lemma cl_loop_minus_two:
  "cl_loop (Fin (- 2), Fin 0) M 0 (Fin (- 2), Fin 0) (sq (Fin (- 2), Fin 0))
     = (0, (Fin (- 2), Fin 0), (Fin 4, Fin 0))"
  by (subst cl_loop.simps) (simp add: sq_two)

lemma window_3: "window 3 3 = ((Fin (- 2), Fin (- (3 / 2))), (Fin 3, Fin 3))"
  by (simp add: window_def fsub_def Let_def)

text \<open>
  C3. The claim says that each loop stops exactly when \<open>depth\<close> reaches \<open>maxDepth\<close>
  or \<open>|z|\<^sup>2\<close> exceeds 4. At \<open>c = (-2, 0)\<close> and \<open>maxDepth = 1024\<close> the OpenCL loop, whose
  test is \<^verbatim>\<open>z2.x + z2.y < 4.0f\<close>, is left at once: \<open>depth\<close> is 0, not \<open>maxDepth\<close>, and
  \<open>|z|\<^sup>2\<close> is 4, which does not exceed 4. The shader's loop, whose test is
  \<^verbatim>\<open>z2.x + z2.y <= 4.0f\<close>, runs to \<open>maxDepth\<close> at the same \<open>c\<close>, with \<open>|z|\<^sup>2 = 4\<close> at
  every step. Every number on this path is an integer of at most two digits, so no
  operation rounds.
\<close>

theorem cl_stops_at_four:
  "cl_loop (Fin (- 2), Fin 0) 1024 0 (Fin (- 2), Fin 0) (sq (Fin (- 2), Fin 0))
     = (0, (Fin (- 2), Fin 0), (Fin 4, Fin 0))
   \<and> (0::int) < 1024
   \<and> fadd (fst (sq (Fin (- 2), Fin 0))) (snd (sq (Fin (- 2), Fin 0))) = Fin 4
   \<and> norm2 (orbit (- 2, 0) 0) = 4
   \<and> gl_loop (Fin (- 2), Fin 0) (1024 - 1) 0 (Fin (- 2), Fin 0) (sq (Fin (- 2), Fin 0))
     = (1024, (Fin 2, Fin 0), (Fin 4, Fin 0))"
  using gl_loop_minus_two [of 1023] cl_loop_minus_two [of 1024]
  by (simp add: sq_two norm2_def)

text \<open>
  C1. The claim says that the two kernels give every pixel the same colour. In a
  3 x 3 image under the programs' own window, \<open>maxDepth = 1024\<close>, \<open>scaleForce = 20\<close>
  and a palette of two colours, pixel \<open>(0, 1)\<close> is \<open>c = (-2, 0)\<close> in both kernels,
  where \<open>|z|\<^sup>2\<close> is 4 at every step. The shader runs to \<open>maxDepth\<close> and stores black;
  the OpenCL kernel leaves its loop at depth 0 and stores the last palette entry.
\<close>

theorem kernels_differ_at_minus_two:
  "window 3 3 = ((Fin (- 2), Fin (- (3 / 2))), (Fin 3, Fin 3))
   \<and> gl_interpolate (gl_uniforms \<lparr>p_localGroupSize = 1, p_maxDepth = 1024, p_width = 3,
        p_height = 3, p_scaleForce = Fin 20\<rparr> (Fin (- 2), Fin (- (3 / 2))) (Fin 3, Fin 3) 2) (0, 1)
       = (Fin (- 2), Fin 0)
   \<and> cl_interpolate (Fin (- 2), Fin (- (3 / 2))) (Fin 3, Fin 3) (0, 1) (3, 3) = (Fin (- 2), Fin 0)
   \<and> gl_pixel \<lparr>p_localGroupSize = 1, p_maxDepth = 1024, p_width = 3, p_height = 3,
        p_scaleForce = Fin 20\<rparr> (Fin (- 2), Fin (- (3 / 2))) (Fin 3, Fin 3) 2
        [(255, 0, 0, 255), (0, 0, 255, 255)] (0, 1)
       = Inr (0, 0, 0, 255)
   \<and> cl_pixel \<lparr>p_localGroupSize = 1, p_maxDepth = 1024, p_width = 3, p_height = 3,
        p_scaleForce = Fin 20\<rparr> (Fin (- 2), Fin (- (3 / 2))) (Fin 3, Fin 3) 2
        [(255, 0, 0, 255), (0, 0, 255, 255)] (0, 1)
       = Inr (0, 0, 255, 255)"
proof -
  have l: "flog (Fin 20) = Fin (r32 (ln 20))" "r32 (ln 20) \<noteq> 0"
    using flog_20 by simp_all
  have gi: "gl_interpolate (gl_uniforms \<lparr>p_localGroupSize = 1, p_maxDepth = 1024, p_width = 3,
        p_height = 3, p_scaleForce = Fin 20\<rparr> (Fin (- 2), Fin (- (3 / 2))) (Fin 3, Fin 3) 2) (0, 1)
       = (Fin (- 2), Fin 0)"
    by (simp add: gl_uniforms_def gl_interpolate_def fsub_def)
  have ci: "cl_interpolate (Fin (- 2), Fin (- (3 / 2))) (Fin 3, Fin 3) (0, 1) (3, 3)
       = (Fin (- 2), Fin 0)"
    by (simp add: cl_interpolate_def cl_size_def)
  have g: "gl_pixel \<lparr>p_localGroupSize = 1, p_maxDepth = 1024, p_width = 3, p_height = 3,
        p_scaleForce = Fin 20\<rparr> (Fin (- 2), Fin (- (3 / 2))) (Fin 3, Fin 3) 2
        [(255, 0, 0, 255), (0, 0, 255, 255)] (0, 1)
       = Inr (0, 0, 0, 255)"
    unfolding gl_pixel_def shader_main_def gi
    by (simp add: gl_uniforms_def gl_shade_def gl_loop_minus_two gl_colour_def black_def)
  have "cl_escape_index 2 1024 (Fin 20) 0 = Inr (2 - 1)"
    using l by (intro cl_escape_index_zero) simp_all
  then have c: "cl_pixel \<lparr>p_localGroupSize = 1, p_maxDepth = 1024, p_width = 3, p_height = 3,
        p_scaleForce = Fin 20\<rparr> (Fin (- 2), Fin (- (3 / 2))) (Fin 3, Fin 3) 2
        [(255, 0, 0, 255), (0, 0, 255, 255)] (0, 1)
       = Inr (0, 0, 255, 255)"
    unfolding cl_pixel_def mandelbrot_def
    using ci by (simp add: cl_shade_def cl_loop_minus_two cl_colour_def palette_at_def)
  from gi ci g c window_3 show ?thesis
    by (simp only: simp_thms)
qed

section \<open>Where \<open>c\<close> and \<open>i\<close> differ\<close>

lemma r32_fifths:
  "r32 (9 / 5) = 7549747 / 4194304"
  "r32 (- (838861 / 4194304)) = - (838861 / 4194304)"
  "r32 (3 / 5) = 5033165 / 8388608"
  "r32 (15099495 / 8388608) = 15099495 / 8388608"
  "r32 (- (1677721 / 8388608)) = - (1677721 / 8388608)"
proof -
  show "r32 (9 / 5) = 7549747 / 4194304"
    by (subst r32_eval_up [of 0]) (simp_all add: round_even_def)
  show "r32 (- (838861 / 4194304)) = - (838861 / 4194304)"
    by (subst r32_eval_down [of _ 3]) (simp_all add: round_even_def)
  show "r32 (3 / 5) = 5033165 / 8388608"
    by (subst r32_eval_down [of _ 1]) (simp_all add: round_even_def)
  show "r32 (15099495 / 8388608) = 15099495 / 8388608"
    by (subst r32_eval_up [of 0]) (simp_all add: round_even_def)
  show "r32 (- (1677721 / 8388608)) = - (1677721 / 8388608)"
    by (subst r32_eval_down [of _ 3]) (simp_all add: round_even_def)
qed

lemma fl_fifths:
  "fl (9 / 5) = Fin (7549747 / 4194304)"
  "fl (- (838861 / 4194304)) = Fin (- (838861 / 4194304))"
  "fl (3 / 5) = Fin (5033165 / 8388608)"
  "fl (15099495 / 8388608) = Fin (15099495 / 8388608)"
  "fl (- (1677721 / 8388608)) = Fin (- (1677721 / 8388608))"
  by (simp_all add: fl_def max_float_def r32_fifths)

lemma window_6: "window 6 6 = ((Fin (- 2), Fin (- (3 / 2))), (Fin 3, Fin 3))"
  by (simp add: window_def fsub_def Let_def)

lemma window_4_16: "window 4 16 = ((Fin (- 2), Fin (- 6)), (Fin 3, Fin 12))"
  by (simp add: window_def fsub_def Let_def)

lemma sq_0_2: "sq (Fin 0, Fin 2) = (Fin 0, Fin 4)" "sq (Fin (- 4), Fin 2) = (Fin 16, Fin 4)"
  by (simp_all add: sq_def)

lemma gl_loop_0_2:
  "1 \<le> M \<Longrightarrow>
   gl_loop (Fin 0, Fin 2) M 0 (Fin 0, Fin 2) (sq (Fin 0, Fin 2))
     = (1, (Fin (- 4), Fin 2), (Fin 16, Fin 4))"
  by (simp add: gl_loop.simps [of _ _ 0] gl_loop.simps [of _ _ 1] next_z_def sq_0_2 fsub_def)

lemma cl_loop_0_2:
  "cl_loop (Fin 0, Fin 2) M 0 (Fin 0, Fin 2) (sq (Fin 0, Fin 2)) = (0, (Fin 0, Fin 2), (Fin 0, Fin 4))"
  by (simp add: cl_loop.simps [of _ _ 0] sq_0_2)

text \<open>
  C2. For some pixel and shared configuration the two kernels compute a different
  \<open>c\<close>, and for some a different \<open>i\<close>.
  \<^item> In a 6 x 6 image under the programs' window, both kernels divide pixel
    \<open>(3, 0)\<close> by the same \<open>(5, 5)\<close>, but the shader computes \<open>3 * 3 / 5 - 2\<close>
    and the OpenCL kernel \<open>-2 + 3 * (3 / 5)\<close>: rounded after every operation, the
    first components of \<open>c\<close> are \<open>-838861 / 4194304\<close> and \<open>-1677721 / 8388608\<close>.
  \<^item> In a 4 x 16 image under the programs' window and \<open>maxDepth = 1024\<close>, both
    kernels divide the depth by the same 1023, and pixel \<open>(2, 10)\<close> is
    \<open>c = (0, 2)\<close> in both; the shader leaves its loop at depth 1, the OpenCL kernel at
    depth 0 (\<open>|c|\<^sup>2 = 4\<close>), so \<open>i\<close> is the float next to \<open>1 / 1023\<close> in the one and 0
    in the other.
\<close>

theorem kernels_differ_in_c_and_i:
  "window 6 6 = ((Fin (- 2), Fin (- (3 / 2))), (Fin 3, Fin 3))
   \<and> u_size (gl_uniforms \<lparr>p_localGroupSize = 1, p_maxDepth = 1024, p_width = 6, p_height = 6,
        p_scaleForce = Fin 20\<rparr> (Fin (- 2), Fin (- (3 / 2))) (Fin 3, Fin 3) 2) = (Fin 5, Fin 5)
   \<and> cl_size (6, 6) = (Fin 5, Fin 5)
   \<and> gl_interpolate (gl_uniforms \<lparr>p_localGroupSize = 1, p_maxDepth = 1024, p_width = 6,
        p_height = 6, p_scaleForce = Fin 20\<rparr> (Fin (- 2), Fin (- (3 / 2))) (Fin 3, Fin 3) 2) (3, 0)
       = (Fin (- (838861 / 4194304)), Fin (- (3 / 2)))
   \<and> cl_interpolate (Fin (- 2), Fin (- (3 / 2))) (Fin 3, Fin 3) (3, 0) (6, 6)
       = (Fin (- (1677721 / 8388608)), Fin (- (3 / 2)))
   \<and> gl_interpolate (gl_uniforms \<lparr>p_localGroupSize = 1, p_maxDepth = 1024, p_width = 6,
        p_height = 6, p_scaleForce = Fin 20\<rparr> (Fin (- 2), Fin (- (3 / 2))) (Fin 3, Fin 3) 2) (3, 0)
     \<noteq> cl_interpolate (Fin (- 2), Fin (- (3 / 2))) (Fin 3, Fin 3) (3, 0) (6, 6)
   \<and> window 4 16 = ((Fin (- 2), Fin (- 6)), (Fin 3, Fin 12))
   \<and> gl_interpolate (gl_uniforms \<lparr>p_localGroupSize = 1, p_maxDepth = 1024, p_width = 4,
        p_height = 16, p_scaleForce = Fin 20\<rparr> (Fin (- 2), Fin (- 6)) (Fin 3, Fin 12) 2) (2, 10)
       = (Fin 0, Fin 2)
   \<and> cl_interpolate (Fin (- 2), Fin (- 6)) (Fin 3, Fin 12) (2, 10) (4, 16) = (Fin 0, Fin 2)
   \<and> gl_normalise (fst (gl_loop (Fin 0, Fin 2) (1024 - 1) 0 (Fin 0, Fin 2) (sq (Fin 0, Fin 2))))
        (1024 - 1) = Fin (1049601 / 1073741824)
   \<and> cl_normalise (fst (cl_loop (Fin 0, Fin 2) 1024 0 (Fin 0, Fin 2) (sq (Fin 0, Fin 2)))) 1024
       = Fin 0
   \<and> gl_normalise (fst (gl_loop (Fin 0, Fin 2) (1024 - 1) 0 (Fin 0, Fin 2) (sq (Fin 0, Fin 2))))
        (1024 - 1)
     \<noteq> cl_normalise (fst (cl_loop (Fin 0, Fin 2) 1024 0 (Fin 0, Fin 2) (sq (Fin 0, Fin 2)))) 1024"
proof -
  have a: "u_size (gl_uniforms \<lparr>p_localGroupSize = 1, p_maxDepth = 1024, p_width = 6, p_height = 6,
        p_scaleForce = Fin 20\<rparr> (Fin (- 2), Fin (- (3 / 2))) (Fin 3, Fin 3) 2) = (Fin 5, Fin 5)"
    by (simp add: gl_uniforms_def fsub_def)
  have b: "cl_size (6, 6) = (Fin 5, Fin 5)"
    by (simp add: cl_size_def)
  have c: "gl_interpolate (gl_uniforms \<lparr>p_localGroupSize = 1, p_maxDepth = 1024, p_width = 6,
        p_height = 6, p_scaleForce = Fin 20\<rparr> (Fin (- 2), Fin (- (3 / 2))) (Fin 3, Fin 3) 2) (3, 0)
       = (Fin (- (838861 / 4194304)), Fin (- (3 / 2)))"
    by (simp add: gl_interpolate_def gl_uniforms_def fsub_def fl_fifths)
  have d: "cl_interpolate (Fin (- 2), Fin (- (3 / 2))) (Fin 3, Fin 3) (3, 0) (6, 6)
       = (Fin (- (1677721 / 8388608)), Fin (- (3 / 2)))"
    by (simp add: cl_interpolate_def cl_size_def fl_fifths)
  have e: "gl_interpolate (gl_uniforms \<lparr>p_localGroupSize = 1, p_maxDepth = 1024, p_width = 4,
        p_height = 16, p_scaleForce = Fin 20\<rparr> (Fin (- 2), Fin (- 6)) (Fin 3, Fin 12) 2) (2, 10)
       = (Fin 0, Fin 2)"
    by (simp add: gl_interpolate_def gl_uniforms_def fsub_def)
  have f: "cl_interpolate (Fin (- 2), Fin (- 6)) (Fin 3, Fin 12) (2, 10) (4, 16) = (Fin 0, Fin 2)"
    by (simp add: cl_interpolate_def cl_size_def)
  have g: "gl_normalise (fst (gl_loop (Fin 0, Fin 2) (1024 - 1) 0 (Fin 0, Fin 2) (sq (Fin 0, Fin 2))))
        (1024 - 1) = Fin (1049601 / 1073741824)"
    by (simp add: gl_loop_0_2 gl_normalise_def)
  have h: "cl_normalise (fst (cl_loop (Fin 0, Fin 2) 1024 0 (Fin 0, Fin 2) (sq (Fin 0, Fin 2)))) 1024
       = Fin 0"
    by (simp add: cl_loop_0_2 cl_normalise_def)
  show ?thesis
    unfolding a b c d e f g h window_6 window_4_16 by simp
qed

section \<open>The hosts check no configuration\<close>

lemma wrap32_small: "0 \<le> k \<Longrightarrow> k < 2 ^ 31 \<Longrightarrow> wrap32 k = k"
proof -
  assume k: "0 \<le> k" "k < 2 ^ 31"
  then have "(k + 2 ^ 31) mod 2 ^ 32 = k + 2 ^ 31"
    by (intro mod_pos_pos_trivial) simp_all
  then show ?thesis
    by (simp add: wrap32_def)
qed

lemma window_square: "window 8192 8192 = ((Fin (- 2), Fin (- (3 / 2))), (Fin 3, Fin 3))"
  by (simp add: window_def fsub_def Let_def)

lemma window_1024: "window 1024 1024 = ((Fin (- 2), Fin (- (3 / 2))), (Fin 3, Fin 3))"
  by (simp add: window_def fsub_def Let_def)

text \<open>
  Without the bound on the product the OpenGL program does not reach the dispatch:
  for \<open>width = 32768\<close> and \<open>height = 16384\<close> the product \<open>width * height * 4\<close> is
  \<open>2\<^sup>3\<^sup>1\<close>, which wraps to a negative size.
\<close>

lemma large_image_is_aborted:
  "wrap32 (32768 * 16384 * 4) = - (2 ^ 31)"
  "computeShader_main (gl_parameters\<lparr>p_width := 32768, p_height := 16384\<rparr>) True True h_palette
     = Aborted"
  by (simp_all add: computeShader_main_def wrap32_def gl_parameters_def)

text \<open>
  C9 (as amended). Neither program checks its configuration. Once GLFW and glad
  initialise, the OpenGL program dispatches the shader for every \<open>maxDepth\<close>, every
  \<open>scaleForce\<close> and every palette height (zero, at most 1 and empty included), for all
  dimensions that are not negative with \<open>width * height * 4 < 2\<^sup>3\<^sup>1\<close> and a positive
  \<open>localGroupSize\<close>, over \<open>width / localGroupSize\<close> by \<open>height / localGroupSize\<close>
  groups. The OpenCL program dispatches the kernel for every parameter block and
  palette height whenever every OpenCL call it checks reports success. The only exits
  before the dispatch are failures of the device or of the runtime.
\<close>

theorem no_validation_before_dispatch:
  "(0 \<le> p_width p \<and> 0 \<le> p_height p \<and> p_width p * p_height p * 4 < 2 ^ 31
      \<and> 0 < p_localGroupSize p \<longrightarrow>
      computeShader_main p True True h_palette =
        Dispatched
          (gl_uniforms p (fst (window (p_width p) (p_height p)))
             (snd (window (p_width p) (p_height p))) h_palette,
           c_div (p_width p) (p_localGroupSize p),
           c_div (p_height p) (p_localGroupSize p)))
   \<and> (platform_ok st \<and> devices_ok st \<and> write_palette_ok st \<and> build_ok st \<and> setArg_ok st
        \<and> enqueue_ok st \<longrightarrow>
      openCL_main p st h_palette =
        Dispatched
          ((sint h_palette, p_maxDepth p, p_scaleForce p),
           (p_width p, p_height p),
           (p_localGroupSize p, p_localGroupSize p)))"
proof -
  have "\<not> wrap32 (p_width p * p_height p * 4) < 0"
    if "0 \<le> p_width p" "0 \<le> p_height p" "p_width p * p_height p * 4 < 2 ^ 31"
  proof -
    from that have "0 \<le> p_width p * p_height p * 4" by simp
    with that(3) show ?thesis
      by (simp add: wrap32_small)
  qed
  then show ?thesis
    by (auto simp: computeShader_main_def openCL_main_def)
qed

theorem no_validation_before_dispatch_witness:
  "invalid_configuration (gl_parameters\<lparr>p_maxDepth := 0, p_scaleForce := Fin 1\<rparr>) 0
   \<and> computeShader_main (gl_parameters\<lparr>p_maxDepth := 0, p_scaleForce := Fin 1\<rparr>) True True 0 =
        Dispatched
          (\<lparr>u_size = (Fin 8191, Fin 8191), u_paletteSize = - 1,
             u_cmin = (Fin (- 2), Fin (- (3 / 2))), u_cdelta = (Fin 3, Fin 3), u_maxDepth = - 1,
             u_scaleForce = Fin 1\<rparr>, 256, 256)
   \<and> invalid_configuration (cl_parameters\<lparr>p_maxDepth := 0, p_scaleForce := Fin 1\<rparr>) 512
   \<and> openCL_main (cl_parameters\<lparr>p_maxDepth := 0, p_scaleForce := Fin 1\<rparr>)
        \<lparr>platform_ok = True, devices_ok = True, write_palette_ok = True, build_ok = True,
         setArg_ok = True, enqueue_ok = True\<rparr> 512 =
        Dispatched ((512, 0, Fin 1), (1024, 1024), (32, 32))"
  using no_validation_before_dispatch [of "gl_parameters\<lparr>p_maxDepth := 0, p_scaleForce := Fin 1\<rparr>" 0
      "\<lparr>platform_ok = True, devices_ok = True, write_palette_ok = True, build_ok = True,
         setArg_ok = True, enqueue_ok = True\<rparr>"]
    no_validation_before_dispatch [of "cl_parameters\<lparr>p_maxDepth := 0, p_scaleForce := Fin 1\<rparr>" 512
      "\<lparr>platform_ok = True, devices_ok = True, write_palette_ok = True, build_ok = True,
         setArg_ok = True, enqueue_ok = True\<rparr>"]
  by (simp add: gl_parameters_def cl_parameters_def invalid_configuration_def window_square
      gl_uniforms_def c_div_def fsub_def)

text \<open>
  The claim as stated, that every invalid configuration is rejected before the kernel
  is dispatched, fails for the OpenGL program with its own parameters and an empty
  palette (\<open>h_palette = 0\<close>, as when the palette file cannot be decoded): the shader is
  dispatched with \<open>paletteSize = -1\<close>. It fails for the OpenCL program with
  \<open>maxDepth = 0\<close> when the runtime reports success.
\<close>

theorem empty_palette_is_dispatched:
  "invalid_configuration gl_parameters 0
   \<and> computeShader_main gl_parameters True True 0 =
        Dispatched
          (\<lparr>u_size = (Fin 8191, Fin 8191), u_paletteSize = - 1,
             u_cmin = (Fin (- 2), Fin (- (3 / 2))), u_cdelta = (Fin 3, Fin 3), u_maxDepth = 1023,
             u_scaleForce = Fin 20\<rparr>, 256, 256)
   \<and> invalid_configuration (cl_parameters\<lparr>p_maxDepth := 0\<rparr>) 512
   \<and> openCL_main (cl_parameters\<lparr>p_maxDepth := 0\<rparr>)
        \<lparr>platform_ok = True, devices_ok = True, write_palette_ok = True, build_ok = True,
         setArg_ok = True, enqueue_ok = True\<rparr> 512 =
        Dispatched ((512, 0, Fin 20), (1024, 1024), (32, 32))"
  by (simp add: computeShader_main_def openCL_main_def gl_parameters_def cl_parameters_def
      invalid_configuration_def window_square gl_uniforms_def c_div_def fsub_def wrap32_def)

section \<open>Zero divisors in the valid domain\<close>

lemma gl_loop_NaN: "fst c = NaN \<or> snd c = NaN \<Longrightarrow> gl_loop c M 0 c (sq c) = (0, c, sq c)"
  by (subst gl_loop.simps) (auto simp: sq_def)

lemma cl_loop_NaN: "fst c = NaN \<or> snd c = NaN \<Longrightarrow> cl_loop c M 0 c (sq c) = (0, c, sq c)"
  by (subst cl_loop.simps) (auto simp: sq_def)

lemma gl_loop_escaped_at_once:
  "\<not> fle (fadd (fst (sq c)) (snd (sq c))) (Fin 4) \<Longrightarrow> gl_loop c M 0 c (sq c) = (0, c, sq c)"
  by (subst gl_loop.simps) simp

lemma cl_loop_escaped_at_once:
  "\<not> flt (fadd (fst (sq c)) (snd (sq c))) (Fin 4) \<Longrightarrow> cl_loop c M 0 c (sq c) = (0, c, sq c)"
  by (subst cl_loop.simps) simp

lemma zero_by_zero: "fdiv (fmul d (Fin 0)) (Fin 0) = NaN"
  by (cases d) simp_all

lemma gl_escape_index_NaN:
  assumes "u_maxDepth u = 0" and "0 \<le> u_paletteSize u" and "u_paletteSize u \<le> 2 ^ 24"
  shows "gl_normalise 0 (u_maxDepth u) = NaN" and "gl_escape_index u 0 = Inr 0"
proof -
  show n: "gl_normalise 0 (u_maxDepth u) = NaN"
    using assms(1) by (simp add: gl_normalise_def)
  have "gl_smooth NaN (u_scaleForce u) = Fin 1"
    by (simp add: gl_smooth_def log_ratio_NaN gl_min_def)
  then show "gl_escape_index u 0 = Inr 0"
    using n index_at_one(1) [OF assms(2,3)] by (simp add: gl_escape_index_def gl_index_def)
qed

lemma cl_escape_index_NaN:
  assumes "1 \<le> paletteSize" and "paletteSize \<le> 2 ^ 24 + 1"
  shows "cl_normalise 0 1 = NaN" and "cl_escape_index paletteSize 1 scaleForce 0 = Inr 0"
proof -
  show n: "cl_normalise 0 1 = NaN"
    by (simp add: cl_normalise_def)
  have s: "cl_smooth NaN scaleForce = Fin 1"
    by (simp add: cl_smooth_def log_ratio_NaN cl_fmin_def)
  from assms have "0 \<le> paletteSize - 1" "paletteSize - 1 \<le> 2 ^ 24"
    by simp_all
  then show "cl_escape_index paletteSize 1 scaleForce 0 = Inr 0"
    using n s index_at_one(2) [of "paletteSize - 1"] by (simp add: cl_escape_index_def cl_index_def)
qed

text \<open>The OpenGL host sets the shader's divisor to zero for an image one pixel wide or high.\<close>

lemma host_size_zero:
  "p_width p = 1 \<Longrightarrow> fst (u_size (gl_uniforms p cmin delta h_palette)) = Fin 0"
  "p_height p = 1 \<Longrightarrow> snd (u_size (gl_uniforms p cmin delta h_palette)) = Fin 0"
  "p_maxDepth p = 1 \<Longrightarrow> u_maxDepth (gl_uniforms p cmin delta h_palette) = 0"
  by (simp_all add: gl_uniforms_def fsub_def)

text \<open>
  C10 (as amended). With \<open>width = 1\<close> or \<open>height = 1\<close> each kernel divides 0 by 0 in
  the interpolation, and with \<open>maxDepth = 1\<close> in the normalisation of a pixel that
  escapes at the first test. No division traps: the quotient is NaN, and the kernel
  goes on to store a palette entry.
  \<^item> \<open>width = 1\<close> or \<open>height = 1\<close>, \<open>2 \<le> maxDepth < 2\<^sup>3\<^sup>2\<close>: a component of \<open>c\<close>
    is NaN, the first test of the loop is false, \<open>depth\<close> is 0 and the colour is the
    last palette entry, for every pixel.
  \<^item> \<open>maxDepth = 1\<close>, a pixel that fails the first test: \<open>i\<close> is NaN, \<^verbatim>\<open>fmin\<close> and
    \<^verbatim>\<open>min\<close> return their first argument 1, and the colour is the first palette entry.
  Here \<open>scaleForce\<close> is a positive float other than 1 and the palette has at least
  \<open>N\<close> entries, \<open>1 \<le> N \<le> 2\<^sup>2\<^sup>4 + 1\<close>. OpenCL requires this arithmetic of the device; GLSL
  allows an implementation not to produce NaN, so the shader's part holds for the
  implementations that follow IEEE 754.
\<close>

theorem zero_divisors_store_palette_entries:
  assumes "is_float scaleForce" and "0 < scaleForce" and "scaleForce \<noteq> 1"
    and "1 \<le> N" and "N \<le> 2 ^ 24 + 1" and "N \<le> int (length palette)"
    and "u_scaleForce u = Fin scaleForce" and "u_paletteSize u = N - 1"
  shows "(2 \<le> maxDepth \<and> maxDepth < 2 ^ 32 \<longrightarrow>
            fst (cl_size (1, height)) = Fin 0
          \<and> fst (cl_interpolate cmin delta (0, y) (1, height)) = NaN
          \<and> mandelbrot palette N cmin delta maxDepth (Fin scaleForce) (0, y) (1, height)
              = Inr (palette ! nat (N - 1))
          \<and> snd (cl_size (width, 1)) = Fin 0
          \<and> snd (cl_interpolate cmin delta (x, 0) (width, 1)) = NaN
          \<and> mandelbrot palette N cmin delta maxDepth (Fin scaleForce) (x, 0) (width, 1)
              = Inr (palette ! nat (N - 1)))
       \<and> (\<not> flt (fadd (fst (sq c)) (snd (sq c))) (Fin 4) \<longrightarrow>
            cl_normalise 0 1 = NaN
          \<and> cl_shade palette N 1 (Fin scaleForce) c = Inr (palette ! 0))
       \<and> (2 \<le> maxDepth \<and> maxDepth < 2 ^ 32 \<and> fst (u_size u) = Fin 0 \<longrightarrow>
            fst (gl_interpolate (u\<lparr>u_maxDepth := maxDepth - 1\<rparr>) (0, y)) = NaN
          \<and> shader_main (u\<lparr>u_maxDepth := maxDepth - 1\<rparr>) palette (0, y)
              = Inr (palette ! nat (N - 1)))
       \<and> (2 \<le> maxDepth \<and> maxDepth < 2 ^ 32 \<and> snd (u_size u) = Fin 0 \<longrightarrow>
            snd (gl_interpolate (u\<lparr>u_maxDepth := maxDepth - 1\<rparr>) (x, 0)) = NaN
          \<and> shader_main (u\<lparr>u_maxDepth := maxDepth - 1\<rparr>) palette (x, 0)
              = Inr (palette ! nat (N - 1)))
       \<and> (\<not> fle (fadd (fst (sq c)) (snd (sq c))) (Fin 4) \<longrightarrow>
            gl_normalise 0 (u_maxDepth (u\<lparr>u_maxDepth := 1 - 1\<rparr>)) = NaN
          \<and> gl_shade (u\<lparr>u_maxDepth := 1 - 1\<rparr>) palette c = Inr (palette ! 0))"
proof (intro conjI impI)
  have l: "flog (Fin scaleForce) = Fin (r32 (ln scaleForce))" "r32 (ln scaleForce) \<noteq> 0"
    using assms(1,2,3) by (rule flog_nonzero)+
  have last: "palette_at palette (N - 1) = Inr (palette ! nat (N - 1))"
    using assms by (simp add: palette_at_def)
  from assms(4,6) have "0 < int (length palette)"
    by linarith
  then have first: "palette_at palette 0 = Inr (palette ! 0)"
    by (simp add: palette_at_def)
  {
    fix c' :: vec2
    assume M: "2 \<le> maxDepth \<and> maxDepth < 2 ^ 32" and nan: "fst c' = NaN \<or> snd c' = NaN"
    have "cl_escape_index N maxDepth (Fin scaleForce) 0 = Inr (N - 1)"
      using M assms l by (intro cl_escape_index_zero [of _ _ "r32 (ln scaleForce)"]) simp_all
    then have "cl_shade palette N maxDepth (Fin scaleForce) c' = Inr (palette ! nat (N - 1))"
      using M last by (simp add: cl_shade_def cl_loop_NaN [OF nan] cl_colour_def)
  }
  note cl = this
  {
    fix c' :: vec2
    assume M: "2 \<le> maxDepth \<and> maxDepth < 2 ^ 32" and nan: "fst c' = NaN \<or> snd c' = NaN"
    have "gl_escape_index (u\<lparr>u_maxDepth := maxDepth - 1\<rparr>) 0
        = Inr (u_paletteSize (u\<lparr>u_maxDepth := maxDepth - 1\<rparr>))"
      using M assms l by (intro gl_escape_index_zero [of _ "r32 (ln scaleForce)"]) simp_all
    then have "gl_shade (u\<lparr>u_maxDepth := maxDepth - 1\<rparr>) palette c' = Inr (palette ! nat (N - 1))"
      using M last assms(8) by (simp add: gl_shade_def gl_loop_NaN [OF nan] gl_colour_def)
  }
  note gl = this
  show "fst (cl_size (1, height)) = Fin 0" and "snd (cl_size (width, 1)) = Fin 0"
    by (simp_all add: cl_size_def)
  show cx: "fst (cl_interpolate cmin delta (0, y) (1, height)) = NaN"
    by (simp add: cl_interpolate_def cl_size_def)
  show cy: "snd (cl_interpolate cmin delta (x, 0) (width, 1)) = NaN"
    by (simp add: cl_interpolate_def cl_size_def)
  show "mandelbrot palette N cmin delta maxDepth (Fin scaleForce) (0, y) (1, height)
      = Inr (palette ! nat (N - 1))"
    if "2 \<le> maxDepth \<and> maxDepth < 2 ^ 32"
    unfolding mandelbrot_def using that cx by (intro cl) simp_all
  show "mandelbrot palette N cmin delta maxDepth (Fin scaleForce) (x, 0) (width, 1)
      = Inr (palette ! nat (N - 1))"
    if "2 \<le> maxDepth \<and> maxDepth < 2 ^ 32"
    unfolding mandelbrot_def using that cy by (intro cl) simp_all
  show "cl_normalise 0 1 = NaN"
    by (simp add: cl_normalise_def)
  show "cl_shade palette N 1 (Fin scaleForce) c = Inr (palette ! 0)"
    if "\<not> flt (fadd (fst (sq c)) (snd (sq c))) (Fin 4)"
    using that first cl_escape_index_NaN(2) [OF assms(4,5)]
    by (simp add: cl_shade_def cl_loop_escaped_at_once cl_colour_def)
  show gx: "fst (gl_interpolate (u\<lparr>u_maxDepth := maxDepth - 1\<rparr>) (0, y)) = NaN"
    if "2 \<le> maxDepth \<and> maxDepth < 2 ^ 32 \<and> fst (u_size u) = Fin 0"
    using that by (simp add: gl_interpolate_def zero_by_zero)
  show gy: "snd (gl_interpolate (u\<lparr>u_maxDepth := maxDepth - 1\<rparr>) (x, 0)) = NaN"
    if "2 \<le> maxDepth \<and> maxDepth < 2 ^ 32 \<and> snd (u_size u) = Fin 0"
    using that by (simp add: gl_interpolate_def zero_by_zero)
  show "shader_main (u\<lparr>u_maxDepth := maxDepth - 1\<rparr>) palette (0, y) = Inr (palette ! nat (N - 1))"
    if "2 \<le> maxDepth \<and> maxDepth < 2 ^ 32 \<and> fst (u_size u) = Fin 0"
    unfolding shader_main_def using that gx by (intro gl) simp_all
  show "shader_main (u\<lparr>u_maxDepth := maxDepth - 1\<rparr>) palette (x, 0) = Inr (palette ! nat (N - 1))"
    if "2 \<le> maxDepth \<and> maxDepth < 2 ^ 32 \<and> snd (u_size u) = Fin 0"
    unfolding shader_main_def using that gy by (intro gl) simp_all
  have z: "u_maxDepth (u\<lparr>u_maxDepth := 1 - 1\<rparr>) = 0"
    by simp
  have p: "0 \<le> u_paletteSize (u\<lparr>u_maxDepth := 1 - 1\<rparr>)"
    "u_paletteSize (u\<lparr>u_maxDepth := 1 - 1\<rparr>) \<le> 2 ^ 24"
    using assms by simp_all
  show "gl_normalise 0 (u_maxDepth (u\<lparr>u_maxDepth := 1 - 1\<rparr>)) = NaN"
    using gl_escape_index_NaN(1) [OF z p] .
  show "gl_shade (u\<lparr>u_maxDepth := 1 - 1\<rparr>) palette c = Inr (palette ! 0)"
    if "\<not> fle (fadd (fst (sq c)) (snd (sq c))) (Fin 4)"
    using that first gl_escape_index_NaN(2) [OF z p]
    by (simp add: gl_shade_def gl_loop_escaped_at_once gl_colour_def)
qed

theorem zero_divisors_store_palette_entries_witness:
  "is_float 20
   \<and> \<not> flt (fadd (fst (sq (Fin 3, Fin 0))) (snd (sq (Fin 3, Fin 0)))) (Fin 4)
   \<and> \<not> fle (fadd (fst (sq (Fin 3, Fin 0))) (snd (sq (Fin 3, Fin 0)))) (Fin 4)
   \<and> fst (cl_interpolate (Fin (- 2), Fin (- (3 / 2))) (Fin 3, Fin 3) (0, 0) (1, 1)) = NaN
   \<and> mandelbrot [(255, 0, 0, 255), (0, 0, 255, 255)] 2 (Fin (- 2), Fin (- (3 / 2))) (Fin 3, Fin 3)
        1024 (Fin 20) (0, 0) (1, 1) = Inr (0, 0, 255, 255)
   \<and> cl_shade [(255, 0, 0, 255), (0, 0, 255, 255)] 2 1 (Fin 20) (Fin 3, Fin 0)
       = Inr (255, 0, 0, 255)
   \<and> shader_main \<lparr>u_size = (Fin 0, Fin 0), u_paletteSize = 1,
        u_cmin = (Fin (- 2), Fin (- (3 / 2))), u_cdelta = (Fin 3, Fin 3), u_maxDepth = 1023,
        u_scaleForce = Fin 20\<rparr> [(255, 0, 0, 255), (0, 0, 255, 255)] (0, 0)
       = Inr (0, 0, 255, 255)
   \<and> gl_shade \<lparr>u_size = (Fin 0, Fin 0), u_paletteSize = 1,
        u_cmin = (Fin (- 2), Fin (- (3 / 2))), u_cdelta = (Fin 3, Fin 3), u_maxDepth = 0,
        u_scaleForce = Fin 20\<rparr> [(255, 0, 0, 255), (0, 0, 255, 255)] (Fin 3, Fin 0)
       = Inr (255, 0, 0, 255)"
proof -
  show ?thesis
    using zero_divisors_store_palette_entries
      [where scaleForce = 20 and N = 2
        and palette = "[(255, 0, 0, 255), (0, 0, 255, 255)]"
        and u = "\<lparr>u_size = (Fin 0, Fin 0), u_paletteSize = 1,
          u_cmin = (Fin (- 2), Fin (- (3 / 2))), u_cdelta = (Fin 3, Fin 3), u_maxDepth = 1023,
          u_scaleForce = Fin 20\<rparr>"
        and maxDepth = 1024 and height = 1 and width = 1 and x = 0 and y = 0
        and cmin = "(Fin (- 2), Fin (- (3 / 2)))" and delta = "(Fin 3, Fin 3)"
        and c = "(Fin 3, Fin 0)"] is_float_20
    by (simp add: sq_3)
qed

lemma window_1: "window 1 1 = ((Fin (- 2), Fin (- (3 / 2))), (Fin 3, Fin 3))"
  by (simp add: window_def fsub_def Let_def)

text \<open>
  The claim as stated, that the colour is then neither black nor a palette entry,
  fails for the image of one pixel (\<open>width = 1\<close> and \<open>height = 1\<close>) under the programs'
  window, \<open>scaleForce = 20\<close> and a palette of two colours: both components of \<open>c\<close> are
  NaN, and the OpenCL kernel stores the last palette entry under \<open>maxDepth = 1024\<close>
  and the first one under \<open>maxDepth = 1\<close>.
\<close>

theorem one_pixel_image_is_coloured:
  "window 1 1 = ((Fin (- 2), Fin (- (3 / 2))), (Fin 3, Fin 3))
   \<and> cl_interpolate (Fin (- 2), Fin (- (3 / 2))) (Fin 3, Fin 3) (0, 0) (1, 1) = (NaN, NaN)
   \<and> cl_pixel \<lparr>p_localGroupSize = 1, p_maxDepth = 1024, p_width = 1, p_height = 1,
        p_scaleForce = Fin 20\<rparr> (Fin (- 2), Fin (- (3 / 2))) (Fin 3, Fin 3) 2
        [(255, 0, 0, 255), (0, 0, 255, 255)] (0, 0)
       = Inr (0, 0, 255, 255)
   \<and> cl_pixel \<lparr>p_localGroupSize = 1, p_maxDepth = 1, p_width = 1, p_height = 1,
        p_scaleForce = Fin 20\<rparr> (Fin (- 2), Fin (- (3 / 2))) (Fin 3, Fin 3) 2
        [(255, 0, 0, 255), (0, 0, 255, 255)] (0, 0)
       = Inr (255, 0, 0, 255)"
proof -
  have l: "flog (Fin 20) = Fin (r32 (ln 20))" "r32 (ln 20) \<noteq> 0"
    using flog_20 by simp_all
  have ci: "cl_interpolate (Fin (- 2), Fin (- (3 / 2))) (Fin 3, Fin 3) (0, 0) (1, 1) = (NaN, NaN)"
    by (simp add: cl_interpolate_def cl_size_def)
  have lp: "cl_loop (NaN, NaN) M 0 (NaN, NaN) (sq (NaN, NaN)) = (0, (NaN, NaN), sq (NaN, NaN))" for M
    by (rule cl_loop_NaN) simp
  have "cl_escape_index 2 1024 (Fin 20) 0 = Inr (2 - 1)"
    using l by (intro cl_escape_index_zero) simp_all
  then have a: "cl_pixel \<lparr>p_localGroupSize = 1, p_maxDepth = 1024, p_width = 1, p_height = 1,
        p_scaleForce = Fin 20\<rparr> (Fin (- 2), Fin (- (3 / 2))) (Fin 3, Fin 3) 2
        [(255, 0, 0, 255), (0, 0, 255, 255)] (0, 0)
       = Inr (0, 0, 255, 255)"
    unfolding cl_pixel_def mandelbrot_def
    using ci by (simp add: cl_shade_def lp cl_colour_def palette_at_def)
  have "cl_escape_index 2 1 (Fin 20) 0 = Inr 0"
    by (intro cl_escape_index_NaN) simp_all
  then have b: "cl_pixel \<lparr>p_localGroupSize = 1, p_maxDepth = 1, p_width = 1, p_height = 1,
        p_scaleForce = Fin 20\<rparr> (Fin (- 2), Fin (- (3 / 2))) (Fin 3, Fin 3) 2
        [(255, 0, 0, 255), (0, 0, 255, 255)] (0, 0)
       = Inr (255, 0, 0, 255)"
    unfolding cl_pixel_def mandelbrot_def
    using ci by (simp add: cl_shade_def lp cl_colour_def palette_at_def)
  from ci a b window_1 show ?thesis
    by (simp only: simp_thms)
qed


end
